theory Spec2Isabelle
  imports Main "HOL-Library.Word"
begin

section \<open>The room gateway: data model\<close>

text \<open>
  The gateway of \<^verbatim>\<open>src/room/room.gateway.ts\<close> keeps the list \<^verbatim>\<open>activeRooms\<close>, a map
  of collaborative documents and talks to a durable room table through
  \<^verbatim>\<open>RoomService\<close>. Every handler is embedded as a function from the state before the
  event to the state after it, the list of events it emits (in emission order) and the
  way it completes (a normal return or an exception that leaves the handler).

  A handler is taken as one atomic step: the event loop is single threaded, and the
  interleaving of another event at an \<^verbatim>\<open>await\<close> is outside this model.
  JavaScript's \<^verbatim>\<open>undefined\<close> and \<^verbatim>\<open>null\<close> are \<open>None\<close> wherever the code reads a value
  by truthiness or with \<^verbatim>\<open>??\<close>; the fields of the edit-room payload, which the code
  compares with \<^verbatim>\<open>undefined\<close> alone, keep the two apart. Numbers of the
  payloads (lines, columns, cursor coordinates) are only copied and tested for
  truthiness; they are integers here. A \<^verbatim>\<open>Date\<close> is the clock reading \<open>now\<close> the
  handler is given.
\<close>

type_synonym bytes = "8 word list"

type_synonym point = "int \<times> int"

text \<open>The anonymous object type of \<^verbatim>\<open>Member.lastSelection\<close>; \<^verbatim>\<open>{}\<close> has every field absent.\<close>

record Selection =
  line :: "int option"
  column :: "int option"
  selectionStart :: "point option"
  selectionEnd :: "point option"
  selectedText :: "string option"

record Member =
  clientId :: string
  telegramId :: string
  username :: "string option"
  online :: bool
  lastCursorPosition :: "(int \<times> int) option"
  lastSelection :: "Selection option"
  userColor :: "string option"
  lastActivity :: "nat option"

text \<open>
  The interface \<^verbatim>\<open>Room\<close> of the gateway (an active room). Its field \<^verbatim>\<open>id\<close> is
  \<open>rid\<close> here. The toggles are declared \<^verbatim>\<open>boolean\<close>, but the edit handler can store
  the durable row's nullable value, so they are optional booleans read by truthiness.
\<close>

record Room =
  rid :: string
  members :: "Member list"
  teacher :: string
  studentCursorEnabled :: "bool option"
  studentSelectionEnabled :: "bool option"
  studentEditCodeEnabled :: "bool option"
  completed :: bool

text \<open>A row of the durable room table, as \<^verbatim>\<open>RoomService\<close> reads and writes it.\<close>

record DurableRoom =
  id_d :: string
  teacher_d :: string
  students_d :: "string list"
  studentCursorEnabled_d :: "bool option"
  studentSelectionEnabled_d :: "bool option"
  studentEditCodeEnabled_d :: "bool option"
  completed_d :: bool
  language_d :: "string option"
  taskId_d :: "string option"

subsection \<open>Inbound payloads\<close>

record JoinPayload =
  telegramId_j :: string
  username_j :: "string option"
  roomId_j :: string

record EditMember = JoinPayload +
  changeTelegramId :: string

text \<open>
  An optional field of the edit-room payload: left out (\<^verbatim>\<open>undefined\<close>), \<^verbatim>\<open>null\<close>, or a
  value. The handler and \<^verbatim>\<open>RoomService.editRoom\<close> test such a field with
  \<^verbatim>\<open>!== undefined\<close>, so \<^verbatim>\<open>null\<close> counts as given.
\<close>

datatype 'a given = Undefined | Null | Given 'a

record EditPayload =
  roomId_e :: string
  telegramId_e :: string
  studentCursorEnabled_e :: "bool given"
  studentEditCodeEnabled_e :: "bool given"
  studentSelectionEnabled_e :: "bool given"
  language_e :: "string given"
  taskId_e :: "string given"

record Log =
  telegramId_l :: string
  cursor_l :: "int list"

record CursorPayload =
  roomId_c :: string
  position :: "int list"
  logs :: "Log list"
  telegramId_c :: string

record SelectionPayload = Selection +
  roomId_s :: string
  telegramId_s :: string
  clearSelection :: "bool option"

record CodeEditPayload =
  roomId_u :: string
  telegramId_u :: string
  update_u :: bytes

subsection \<open>Outbound events\<close>

text \<open>
  The literal messages of the source are Russian sentences; each is a constructor here,
  named after what the sentence says.
\<close>

datatype message =
  RoomNotFoundMsg
| CursorTwoValuesMsg
| EditingDisabledMsg
| NoTelegramIdMsg
| MemberNotInRoomMsg
| TeacherClosedSessionMsg

datatype trigger = Join | Leave | UsernameUpdate

record MemberView =
  telegramId_v :: string
  username_v :: "string option"
  isYourself_v :: "bool option"
  online_v :: bool
  userColor_v :: "string option"
  lastActivity_v :: "nat option"

record CursorEntry =
  telegramId_ce :: string
  position_ce :: "(int \<times> int) option"
  userColor_ce :: "string option"
  username_ce :: "string option"

text \<open>
  An entry of a selection list is \<^verbatim>\<open>{telegramId, ...m.lastSelection, userColor, username}\<close>:
  the fields of the stored selection, spread, beside the member's own.
\<close>

record SelectionEntry = Selection +
  telegramId_se :: string
  userColor_se :: "string option"
  username_se :: "string option"

record JoinedPayload =
  telegramId_jd :: string
  currentCursors :: "CursorEntry list"
  currentSelections :: "SelectionEntry list"
  userColor_jd :: "string option"
  isTeacher :: bool
  roomPermissions :: "bool option \<times> bool option \<times> bool option"
  language_jd :: "string option"
  completed_jd :: bool

record CursorAction = CursorPayload +
  userColor_ca :: "string option"
  username_ca :: "string option"

datatype payload =
  JoinRoomError message
| MembersUpdated "MemberView list" trigger string
| Joined JoinedPayload
| CodeEditAction bytes "string option" "string option" "string option"
| SelectionState "SelectionEntry list" string
| CursorActionEv CursorAction
| RoomEdited DurableRoom
| ErrorEv message
| CompleteSession message
| MemberLeft string bool

text \<open>
  Where an event goes: \<^verbatim>\<open>client.emit\<close> reaches the one connection,
  \<^verbatim>\<open>server.to(room).emit\<close> every connection of the room, and
  \<^verbatim>\<open>client.broadcast.to(room).emit\<close> every connection of the room but the sender.
\<close>

datatype target =
  ToClient string
| ToRoom string
| ToRoomExcept string string

type_synonym emit = "target \<times> payload"

datatype exn = NotFoundException | EngineRejected

datatype completion = Returned | Threw exn

subsection \<open>The document engine and the state\<close>

text \<open>
  The CRDT engine is a library the gateway calls; it is a parameter of the model. A call
  of \<^verbatim>\<open>Y.applyUpdate\<close> either returns, leaving the document in a new state, or throws,
  leaving it in some state too.
\<close>

datatype 'doc applied = Applied 'doc | Rejected 'doc

record 'doc engine =
  newDoc :: 'doc
  applyUpdate :: "'doc \<Rightarrow> bytes \<Rightarrow> 'doc applied"
  encodeStateAsUpdate :: "'doc \<Rightarrow> bytes"

record 'doc state =
  activeRooms :: "Room list"
  docs :: "(string \<times> 'doc) list"
  store :: "DurableRoom list"

type_synonym 'doc result = "'doc state \<times> emit list \<times> completion"

section \<open>Helpers of the embedding\<close>

text \<open>
  \<^verbatim>\<open>xs.find(p)\<close> yields a reference to the first element that satisfies \<^verbatim>\<open>p\<close>; an
  assignment through that reference changes the element where it stands.
\<close>

fun modifyFirst :: "('a \<Rightarrow> bool) \<Rightarrow> ('a \<Rightarrow> 'a) \<Rightarrow> 'a list \<Rightarrow> 'a list" where
  "modifyFirst P f [] = []"
| "modifyFirst P f (x # xs) = (if P x then f x # xs else x # modifyFirst P f xs)"

text \<open>\<^verbatim>\<open>xs.splice(xs.findIndex(p), 1)\<close>, guarded by \<^verbatim>\<open>index > -1\<close>.\<close>

fun removeFirst :: "('a \<Rightarrow> bool) \<Rightarrow> 'a list \<Rightarrow> 'a list" where
  "removeFirst P [] = []"
| "removeFirst P (x # xs) = (if P x then xs else x # removeFirst P xs)"

text \<open>Truthiness of the optional values the handlers test.\<close>

definition truthyStr :: "string option \<Rightarrow> bool" where
  "truthyStr v = (case v of None \<Rightarrow> False | Some s \<Rightarrow> s \<noteq> [])"

definition truthyNum :: "int option \<Rightarrow> bool" where
  "truthyNum v = (case v of None \<Rightarrow> False | Some n \<Rightarrow> n \<noteq> 0)"

definition truthyBool :: "bool option \<Rightarrow> bool" where
  "truthyBool v = (case v of None \<Rightarrow> False | Some b \<Rightarrow> b)"

definition truthyObj :: "'a option \<Rightarrow> bool" where
  "truthyObj v = (case v of None \<Rightarrow> False | Some _ \<Rightarrow> True)"

text \<open>\<^verbatim>\<open>a ?? b\<close>.\<close>

definition nullish :: "'a option \<Rightarrow> 'a option \<Rightarrow> 'a option" where
  "nullish a b = (case a of None \<Rightarrow> b | Some v \<Rightarrow> Some v)"

section \<open>generateUserColor\<close>

definition colors :: "string list" where
  "colors =
    [''#FF6B6B'', ''#4ECDC4'', ''#45B7D1'', ''#96CEB4'', ''#FFEAA7'',
     ''#DDA0DD'', ''#98D8C8'', ''#F7DC6F'', ''#BB8FCE'', ''#85C1E9'',
     ''#F8C471'', ''#82E0AA'', ''#F1948A'', ''#85929E'', ''#D7BDE2'']"

text \<open>
  \<^verbatim>\<open>hash << 5\<close> converts \<^verbatim>\<open>hash\<close> to a 32-bit signed integer and shifts it, keeping 32
  bits; the subtraction and the addition around it are not wrapped. The numbers of the
  loop are whole and far below \<open>2 ^ 53\<close> for any identity a client sends, so the
  arithmetic of the source is exact and is done on \<open>int\<close> here. A character of an
  identity is its code, as \<^verbatim>\<open>charCodeAt\<close> gives it.
\<close>

definition toInt32 :: "int \<Rightarrow> int" where
  "toInt32 x = (x + 2 ^ 31) mod 2 ^ 32 - 2 ^ 31"

definition shiftLeft5 :: "int \<Rightarrow> int" where
  "shiftLeft5 h = toInt32 (toInt32 h * 32)"

fun hashLoop :: "string \<Rightarrow> int \<Rightarrow> int" where
  "hashLoop [] hash = hash"
| "hashLoop (c # cs) hash = hashLoop cs (int (of_char c) + (shiftLeft5 hash - hash))"

definition generateUserColor :: "string \<Rightarrow> string" where
  "generateUserColor userId = colors ! (nat \<bar>hashLoop userId 0\<bar> mod length colors)"

section \<open>RoomService over the durable table\<close>

text \<open>
  The table is a list of rows; \<^verbatim>\<open>findUnique\<close> reads the first row that matches and
  \<^verbatim>\<open>update\<close> rewrites it. \<^verbatim>\<open>fillDto(RoomRdo, row)\<close> projects a row to the fields
  kept here.
\<close>

definition getRoom :: "DurableRoom list \<Rightarrow> string \<Rightarrow> DurableRoom option" where
  "getRoom st i = find (\<lambda>r. id_d r = i) st"

definition joinRoom ::
  "DurableRoom list \<Rightarrow> string \<Rightarrow> string \<Rightarrow> exn + (DurableRoom list \<times> DurableRoom)" where
  "joinRoom st i member =
    (case find (\<lambda>r. id_d r = i) st of
       None \<Rightarrow> Inl NotFoundException
     | Some room \<Rightarrow>
         let foundStudentInRoom = find (\<lambda>student. student = member) (students_d room) in
         if truthyStr foundStudentInRoom \<or> teacher_d room = member then Inr (st, room)
         else
           let updatedRoom = room\<lparr>students_d := students_d room @ [member]\<rparr> in
           Inr (modifyFirst (\<lambda>r. id_d r = id_d room) (\<lambda>_. updatedRoom) st, updatedRoom))"

text \<open>
  \<^verbatim>\<open>dto.x !== undefined ? dto.x : currentRoom.x\<close>, the value \<^verbatim>\<open>update\<close> writes to a column:
  a field that is \<^verbatim>\<open>null\<close> is written as \<^verbatim>\<open>null\<close>.
\<close>

definition written :: "'a given \<Rightarrow> 'a option \<Rightarrow> 'a option" where
  "written field current =
    (case field of Undefined \<Rightarrow> current | Null \<Rightarrow> None | Given v \<Rightarrow> Some v)"

definition editRoom ::
  "DurableRoom list \<Rightarrow> string \<Rightarrow> EditPayload \<Rightarrow> exn + (DurableRoom list \<times> DurableRoom)" where
  "editRoom st i dto =
    (case find (\<lambda>r. id_d r = i \<and> teacher_d r = telegramId_e dto) st of
       None \<Rightarrow> Inl NotFoundException
     | Some currentRoom \<Rightarrow>
         let editedRoom = currentRoom
              \<lparr>taskId_d := written (taskId_e dto) (taskId_d currentRoom),
               language_d := written (language_e dto) (language_d currentRoom),
               studentCursorEnabled_d :=
                 written (studentCursorEnabled_e dto) (studentCursorEnabled_d currentRoom),
               studentSelectionEnabled_d :=
                 written (studentSelectionEnabled_e dto)
                   (studentSelectionEnabled_d currentRoom),
               studentEditCodeEnabled_d :=
                 written (studentEditCodeEnabled_e dto)
                   (studentEditCodeEnabled_d currentRoom)\<rparr>
         in Inr (modifyFirst (\<lambda>r. id_d r = i \<and> teacher_d r = telegramId_e dto)
                   (\<lambda>_. editedRoom) st, editedRoom))"

definition completeRoom :: "DurableRoom list \<Rightarrow> string \<Rightarrow> exn + DurableRoom list" where
  "completeRoom st i =
    (case find (\<lambda>r. id_d r = i) st of
       None \<Rightarrow> Inl NotFoundException
     | Some _ \<Rightarrow> Inr (modifyFirst (\<lambda>r. id_d r = i) (\<lambda>r. r\<lparr>completed_d := True\<rparr>) st))"

section \<open>The documents\<close>

definition getOrCreateDoc ::
  "'doc engine \<Rightarrow> (string \<times> 'doc) list \<Rightarrow> string \<Rightarrow> (string \<times> 'doc) list \<times> 'doc" where
  "getOrCreateDoc eng ds roomId =
    (case map_of ds roomId of
       None \<Rightarrow> (ds @ [(roomId, newDoc eng)], newDoc eng)
     | Some doc \<Rightarrow> (ds, doc))"

text \<open>The document of a room after a call that changed it in place.\<close>

definition setDoc :: "(string \<times> 'doc) list \<Rightarrow> string \<Rightarrow> 'doc \<Rightarrow> (string \<times> 'doc) list" where
  "setDoc ds roomId doc = modifyFirst (\<lambda>kv. fst kv = roomId) (\<lambda>kv. (fst kv, doc)) ds"

section \<open>Projections sent to the clients\<close>

definition memberView :: "string option \<Rightarrow> Member \<Rightarrow> MemberView" where
  "memberView joiner member =
    \<lparr>telegramId_v = telegramId member,
     username_v = username member,
     isYourself_v = (case joiner of None \<Rightarrow> None | Some t \<Rightarrow> Some (telegramId member = t)),
     online_v = online member,
     userColor_v = userColor member,
     lastActivity_v = lastActivity member\<rparr>"

definition cursorEntry :: "Member \<Rightarrow> CursorEntry" where
  "cursorEntry m =
    \<lparr>telegramId_ce = telegramId m,
     position_ce = lastCursorPosition m,
     userColor_ce = userColor m,
     username_ce = username m\<rparr>"

definition emptySelection :: Selection where
  "emptySelection =
    \<lparr>line = None, column = None, selectionStart = None, selectionEnd = None,
     selectedText = None\<rparr>"

text \<open>
  \<open>named\<close> says whether the entry has the \<^verbatim>\<open>username\<close> key: the join and selection
  handlers write it, the disconnect handler does not.
\<close>

definition selectionEntry :: "bool \<Rightarrow> Member \<Rightarrow> SelectionEntry" where
  "selectionEntry named m =
    (let sel = (case lastSelection m of None \<Rightarrow> emptySelection | Some v \<Rightarrow> v) in
     \<lparr>line = line sel, column = column sel, selectionStart = selectionStart sel,
      selectionEnd = selectionEnd sel, selectedText = selectedText sel,
      telegramId_se = telegramId m,
      userColor_se = userColor m,
      username_se = (if named then username m else None)\<rparr>)"

section \<open>The handlers\<close>

subsection \<open>join-room\<close>

text \<open>
  A new active room is \<^verbatim>\<open>{...room, members: [], ...}\<close>; of the fields spread from the
  durable room only those of the interface \<^verbatim>\<open>Room\<close> are read again, and only they are
  kept. \<^verbatim>\<open>client.join(roomId)\<close> subscribes the connection to the transport's group of
  the room; the transport keeps that membership, and the targets \<open>ToRoom\<close> and
  \<open>ToRoomExcept\<close> stand for it.
\<close>

definition newActiveRoom :: "DurableRoom \<Rightarrow> Room" where
  "newActiveRoom room =
    \<lparr>rid = id_d room,
     members = [],
     teacher = teacher_d room,
     studentCursorEnabled = nullish (studentCursorEnabled_d room) (Some True),
     studentSelectionEnabled = nullish (studentSelectionEnabled_d room) (Some True),
     studentEditCodeEnabled = nullish (studentEditCodeEnabled_d room) (Some True),
     completed = completed_d room\<rparr>"

definition rejoin :: "nat \<Rightarrow> string \<Rightarrow> string option \<Rightarrow> Member \<Rightarrow> Member" where
  "rejoin now client uname existingMember =
    existingMember
      \<lparr>online := True,
       clientId := client,
       lastActivity := Some now,
       username := (if truthyStr uname then uname else username existingMember)\<rparr>"

definition newMember :: "nat \<Rightarrow> string \<Rightarrow> string \<Rightarrow> string option \<Rightarrow> Member" where
  "newMember now client tid uname =
    \<lparr>clientId = client,
     telegramId = tid,
     username = uname,
     online = True,
     lastCursorPosition = None,
     lastSelection = None,
     userColor = Some (generateUserColor tid),
     lastActivity = Some now\<rparr>"

definition upsertMember :: "nat \<Rightarrow> string \<Rightarrow> string \<Rightarrow> string option \<Rightarrow> Member list \<Rightarrow> Member list" where
  "upsertMember now client tid uname ms =
    (case find (\<lambda>member. telegramId member = tid) ms of
       Some _ \<Rightarrow> modifyFirst (\<lambda>member. telegramId member = tid) (rejoin now client uname) ms
     | None \<Rightarrow> ms @ [newMember now client tid uname])"

definition handleJoinRoom ::
  "'doc engine \<Rightarrow> nat \<Rightarrow> string \<Rightarrow> JoinPayload \<Rightarrow> 'doc state \<Rightarrow> 'doc result" where
  "handleJoinRoom eng now client data s =
    (let tid = telegramId_j data; roomId = roomId_j data; uname = username_j data in
     case getRoom (store s) roomId of
       None \<Rightarrow> (s, [(ToClient client, JoinRoomError RoomNotFoundMsg)], Returned)
     | Some room0 \<Rightarrow>
         let isParticipant = (teacher_d room0 = tid \<or> tid \<in> set (students_d room0)) in
         (case (if \<not> isParticipant then joinRoom (store s) (id_d room0) tid
                else Inr (store s, room0)) of
            Inl e \<Rightarrow> (s, [], Threw e)
          | Inr (store1, room) \<Rightarrow>
              let found = find (\<lambda>r. rid r = id_d room) (activeRooms s);
                  activeRoom0 = (case found of None \<Rightarrow> newActiveRoom room | Some r \<Rightarrow> r);
                  existingMember =
                    find (\<lambda>member. telegramId member = tid) (members activeRoom0);
                  activeRoom =
                    activeRoom0\<lparr>members :=
                      upsertMember now client tid uname (members activeRoom0)\<rparr>;
                  rooms1 = (case found of
                              None \<Rightarrow> activeRooms s @ [activeRoom]
                            | Some _ \<Rightarrow>
                                modifyFirst (\<lambda>r. rid r = id_d room) (\<lambda>_. activeRoom)
                                  (activeRooms s));
                  currentCursors =
                    map cursorEntry
                      (filter (\<lambda>m. truthyObj (lastCursorPosition m) \<and> online m)
                         (members activeRoom));
                  currentSelections =
                    map (selectionEntry True)
                      (filter (\<lambda>m. truthyObj (lastSelection m) \<and> online m)
                         (members activeRoom));
                  ownColor = (case existingMember of
                                None \<Rightarrow> None
                              | Some m \<Rightarrow> userColor m);
                  docs_doc = getOrCreateDoc eng (docs s) (id_d room)
              in (s\<lparr>activeRooms := rooms1, docs := fst docs_doc, store := store1\<rparr>,
                  [(ToRoom roomId,
                      MembersUpdated (map (memberView (Some tid)) (members activeRoom))
                        Join tid),
                   (ToClient client,
                      Joined
                        \<lparr>telegramId_jd = tid,
                         currentCursors = currentCursors,
                         currentSelections = currentSelections,
                         userColor_jd =
                           (if truthyStr ownColor then ownColor
                            else Some (generateUserColor tid)),
                         isTeacher = (teacher_d room = tid),
                         roomPermissions =
                           (studentCursorEnabled activeRoom,
                            studentSelectionEnabled activeRoom,
                            studentEditCodeEnabled activeRoom),
                         language_jd = language_d room,
                         completed_jd = completed_d room\<rparr>),
                   (ToClient client,
                      CodeEditAction (encodeStateAsUpdate eng (snd docs_doc)) None None None),
                   (ToClient client, SelectionState currentSelections tid)],
                  Returned)))"

subsection \<open>edit-room\<close>

text \<open>
  One toggle of the in-memory snapshot after an edit,
  \<^verbatim>\<open>data.x !== undefined ? Boolean(data.x) : (activeRoom?.x ?? room.x)\<close>: the value of
  the payload when the field is not \<^verbatim>\<open>undefined\<close> (\<^verbatim>\<open>Boolean(null)\<close> is \<^verbatim>\<open>false\<close>),
  else the value of the active room found before the durable update, else the durable
  row's.
\<close>

definition mergeToggle ::
  "bool given \<Rightarrow> Room option \<Rightarrow> (Room \<Rightarrow> bool option) \<Rightarrow> bool option \<Rightarrow> bool option" where
  "mergeToggle field activeRoom toggle durable =
    (case field of
       Given b \<Rightarrow> Some b
     | Null \<Rightarrow> Some False
     | Undefined \<Rightarrow>
         nullish (case activeRoom of None \<Rightarrow> None | Some r \<Rightarrow> toggle r) durable)"

definition mergeToggles :: "EditPayload \<Rightarrow> Room option \<Rightarrow> DurableRoom \<Rightarrow> Room \<Rightarrow> Room" where
  "mergeToggles data activeRoom room activeRoomItem =
    activeRoomItem
      \<lparr>studentCursorEnabled :=
         mergeToggle (studentCursorEnabled_e data) activeRoom
           studentCursorEnabled (studentCursorEnabled_d room),
       studentEditCodeEnabled :=
         mergeToggle (studentEditCodeEnabled_e data) activeRoom
           studentEditCodeEnabled (studentEditCodeEnabled_d room),
       studentSelectionEnabled :=
         mergeToggle (studentSelectionEnabled_e data) activeRoom
           studentSelectionEnabled (studentSelectionEnabled_d room)\<rparr>"

definition handleEditRoom :: "string \<Rightarrow> EditPayload \<Rightarrow> 'doc state \<Rightarrow> 'doc result" where
  "handleEditRoom client data s =
    (case getRoom (store s) (roomId_e data) of
       None \<Rightarrow> (s, [(ToClient client, ErrorEv RoomNotFoundMsg)], Returned)
     | Some room \<Rightarrow>
         if teacher_d room \<noteq> telegramId_e data
         then (s, [(ToClient client, ErrorEv RoomNotFoundMsg)], Returned)
         else if completed_d room then (s, [], Returned)
         else
           let activeRoom = find (\<lambda>r. rid r = id_d room) (activeRooms s) in
           (case editRoom (store s) (id_d room) data of
              Inl e \<Rightarrow> (s, [], Threw e)
            | Inr (store1, updatedRoom) \<Rightarrow>
                (s\<lparr>activeRooms :=
                     map (\<lambda>activeRoomItem.
                            if rid activeRoomItem = id_d updatedRoom
                            then mergeToggles data activeRoom room activeRoomItem
                            else activeRoomItem)
                       (activeRooms s),
                   store := store1\<rparr>,
                 [(ToRoom (roomId_e data), RoomEdited updatedRoom)],
                 Returned)))"

subsection \<open>cursor\<close>

definition handleCursor :: "nat \<Rightarrow> string \<Rightarrow> CursorPayload \<Rightarrow> 'doc state \<Rightarrow> 'doc result" where
  "handleCursor now client data s =
    (case find (\<lambda>room. rid room = roomId_c data) (activeRooms s) of
       None \<Rightarrow> (s, [(ToClient client, ErrorEv RoomNotFoundMsg)], Returned)
     | Some activeRoom \<Rightarrow>
         if completed activeRoom then (s, [], Returned)
         else if \<not> truthyBool (studentCursorEnabled activeRoom) then (s, [], Returned)
         else if length (position data) \<noteq> 2
         then (s, [(ToClient client, ErrorEv CursorTwoValuesMsg)], Returned)
         else
           let member = find (\<lambda>m. telegramId m = telegramId_c data) (members activeRoom);
               members1 =
                 (case member of
                    None \<Rightarrow> members activeRoom
                  | Some _ \<Rightarrow>
                      modifyFirst (\<lambda>m. telegramId m = telegramId_c data)
                        (\<lambda>m. m\<lparr>lastCursorPosition := Some (position data ! 0, position data ! 1),
                                lastActivity := Some now\<rparr>)
                        (members activeRoom));
               cursorData =
                 \<lparr>roomId_c = roomId_c data, position = position data, logs = logs data,
                  telegramId_c = telegramId_c data,
                  userColor_ca = (case member of None \<Rightarrow> None | Some m \<Rightarrow> userColor m),
                  username_ca = (case member of None \<Rightarrow> None | Some m \<Rightarrow> username m)\<rparr>
           in (s\<lparr>activeRooms :=
                    modifyFirst (\<lambda>room. rid room = roomId_c data)
                      (\<lambda>room. room\<lparr>members := members1\<rparr>) (activeRooms s)\<rparr>,
               [(ToRoomExcept (rid activeRoom) client, CursorActionEv cursorData)],
               Returned))"

subsection \<open>selection\<close>

definition applySelection :: "nat \<Rightarrow> SelectionPayload \<Rightarrow> Member \<Rightarrow> Member" where
  "applySelection now data member =
    (let member1 = member\<lparr>lastActivity := Some now\<rparr> in
     if truthyNum (line data) \<and> column data \<noteq> None \<and>
        (\<not> truthyObj (selectionStart data) \<or> \<not> truthyObj (selectionEnd data) \<or>
         \<not> truthyStr (selectedText data))
     then member1\<lparr>lastSelection :=
            Some \<lparr>line = line data, column = column data, selectionStart = None,
                  selectionEnd = None, selectedText = None\<rparr>\<rparr>
     else if truthyObj (selectionStart data) \<and> truthyObj (selectionEnd data) \<and>
             truthyStr (selectedText data)
     then member1\<lparr>lastSelection :=
            Some \<lparr>line = None, column = None, selectionStart = selectionStart data,
                  selectionEnd = selectionEnd data, selectedText = selectedText data\<rparr>\<rparr>
     else if truthyBool (clearSelection data)
     then member1\<lparr>lastSelection := Some emptySelection\<rparr>
     else member1)"

definition handleSelection ::
  "nat \<Rightarrow> string \<Rightarrow> SelectionPayload \<Rightarrow> 'doc state \<Rightarrow> 'doc result" where
  "handleSelection now client data s =
    (case find (\<lambda>room. rid room = roomId_s data) (activeRooms s) of
       None \<Rightarrow> (s, [(ToClient client, ErrorEv RoomNotFoundMsg)], Returned)
     | Some activeRoom \<Rightarrow>
         if completed activeRoom \<and> teacher activeRoom \<noteq> telegramId_s data
         then (s, [], Returned)
         else if \<not> truthyBool (studentSelectionEnabled activeRoom) \<and>
                 teacher activeRoom \<noteq> telegramId_s data
         then (s, [], Returned)
         else
           let member = find (\<lambda>m. telegramId m = telegramId_s data) (members activeRoom);
               members1 =
                 (case member of
                    None \<Rightarrow> members activeRoom
                  | Some _ \<Rightarrow>
                      modifyFirst (\<lambda>m. telegramId m = telegramId_s data)
                        (applySelection now data) (members activeRoom));
               currentSelections = map (selectionEntry True) (filter online members1)
           in (s\<lparr>activeRooms :=
                    modifyFirst (\<lambda>room. rid room = roomId_s data)
                      (\<lambda>room. room\<lparr>members := members1\<rparr>) (activeRooms s)\<rparr>,
               [(ToRoomExcept (rid activeRoom) client,
                   SelectionState currentSelections (telegramId_s data))],
               Returned))"

subsection \<open>code-edit\<close>

definition handleCodeEdit ::
  "'doc engine \<Rightarrow> nat \<Rightarrow> string \<Rightarrow> CodeEditPayload \<Rightarrow> 'doc state \<Rightarrow> 'doc result" where
  "handleCodeEdit eng now client data s =
    (case find (\<lambda>room. rid room = roomId_u data) (activeRooms s) of
       None \<Rightarrow> (s, [(ToClient client, ErrorEv RoomNotFoundMsg)], Returned)
     | Some activeRoom \<Rightarrow>
         if completed activeRoom \<and> teacher activeRoom \<noteq> telegramId_u data
         then (s, [], Returned)
         else if \<not> truthyBool (studentEditCodeEnabled activeRoom) \<and>
                 telegramId_u data \<noteq> teacher activeRoom
         then (s, [(ToClient client, ErrorEv EditingDisabledMsg)], Returned)
         else if telegramId_u data = []
         then (s, [(ToClient client, ErrorEv NoTelegramIdMsg)], Returned)
         else
           let member = find (\<lambda>m. telegramId m = telegramId_u data) (members activeRoom);
               members1 =
                 (case member of
                    None \<Rightarrow> members activeRoom
                  | Some _ \<Rightarrow>
                      modifyFirst (\<lambda>m. telegramId m = telegramId_u data)
                        (\<lambda>m. m\<lparr>lastActivity := Some now\<rparr>) (members activeRoom));
               rooms1 =
                 modifyFirst (\<lambda>room. rid room = roomId_u data)
                   (\<lambda>room. room\<lparr>members := members1\<rparr>) (activeRooms s);
               docs_doc = getOrCreateDoc eng (docs s) (roomId_u data)
           in (case applyUpdate eng (snd docs_doc) (update_u data) of
                 Rejected doc1 \<Rightarrow>
                   (s\<lparr>activeRooms := rooms1,
                      docs := setDoc (fst docs_doc) (roomId_u data) doc1\<rparr>,
                    [], Threw EngineRejected)
               | Applied doc1 \<Rightarrow>
                   (s\<lparr>activeRooms := rooms1,
                      docs := setDoc (fst docs_doc) (roomId_u data) doc1\<rparr>,
                    [(ToRoomExcept (rid activeRoom) client,
                        CodeEditAction (update_u data) (Some (telegramId_u data))
                          (case member of None \<Rightarrow> None | Some m \<Rightarrow> userColor m)
                          (case member of None \<Rightarrow> None | Some m \<Rightarrow> username m))],
                    Returned)))"

subsection \<open>edit-member\<close>

definition handleEditMember :: "string \<Rightarrow> EditMember \<Rightarrow> 'doc state \<Rightarrow> 'doc result" where
  "handleEditMember client data s =
    (case find (\<lambda>room. rid room = roomId_j data) (activeRooms s) of
       None \<Rightarrow> (s, [(ToClient client, ErrorEv RoomNotFoundMsg)], Returned)
     | Some activeRoom \<Rightarrow>
         if completed activeRoom then (s, [], Returned)
         else
           (case find (\<lambda>m. telegramId m = changeTelegramId data) (members activeRoom) of
              None \<Rightarrow> (s, [(ToClient client, ErrorEv MemberNotInRoomMsg)], Returned)
            | Some member \<Rightarrow>
                if telegramId member = telegramId_j data \<or>
                   teacher activeRoom = telegramId_j data
                then
                  let members1 =
                        modifyFirst (\<lambda>m. telegramId m = changeTelegramId data)
                          (\<lambda>m. m\<lparr>username := username_j data\<rparr>) (members activeRoom)
                  in (s\<lparr>activeRooms :=
                           modifyFirst (\<lambda>room. rid room = roomId_j data)
                             (\<lambda>room. room\<lparr>members := members1\<rparr>) (activeRooms s)\<rparr>,
                      [(ToRoom (rid activeRoom),
                          MembersUpdated (map (memberView None) members1) UsernameUpdate
                            (telegramId_j data))],
                      Returned)
                else (s, [(ToClient client, ErrorEv MemberNotInRoomMsg)], Returned)))"

subsection \<open>close-session\<close>

definition handleCloseSession :: "string \<Rightarrow> JoinPayload \<Rightarrow> 'doc state \<Rightarrow> 'doc result" where
  "handleCloseSession client data s =
    (case getRoom (store s) (roomId_j data) of
       None \<Rightarrow> (s, [(ToClient client, ErrorEv RoomNotFoundMsg)], Returned)
     | Some activeRoom \<Rightarrow>
         if teacher_d activeRoom \<noteq> telegramId_j data
         then (s, [(ToClient client, ErrorEv RoomNotFoundMsg)], Returned)
         else if completed_d activeRoom then (s, [], Returned)
         else
           (case completeRoom (store s) (roomId_j data) of
              Inl e \<Rightarrow> (s, [], Threw e)
            | Inr store1 \<Rightarrow>
                (s\<lparr>activeRooms :=
                     filter (\<lambda>room. rid room \<noteq> id_d activeRoom) (activeRooms s),
                   store := store1\<rparr>,
                 [(ToRoom (id_d activeRoom), CompleteSession TeacherClosedSessionMsg)],
                 Returned)))"

subsection \<open>disconnect\<close>

definition leaveRoom :: "string \<Rightarrow> Room \<Rightarrow> Room" where
  "leaveRoom client room =
    room\<lparr>members :=
      modifyFirst (\<lambda>m. clientId m = client)
        (\<lambda>m. m\<lparr>online := False, lastSelection := None\<rparr>) (members room)\<rparr>"

text \<open>
  The loop over \<^verbatim>\<open>activeRooms\<close>: the first room that has a member bound to the
  connection is changed and the loop breaks. The result is the list with that room
  changed, the member and the room as they are after the change.
\<close>

fun disconnectLoop :: "string \<Rightarrow> Room list \<Rightarrow> (Room list \<times> Member \<times> Room) option" where
  "disconnectLoop client [] = None"
| "disconnectLoop client (room # rest) =
    (case find (\<lambda>m. clientId m = client) (members room) of
       Some member \<Rightarrow>
         Some (leaveRoom client room # rest,
               member\<lparr>online := False, lastSelection := None\<rparr>,
               leaveRoom client room)
     | None \<Rightarrow>
         (case disconnectLoop client rest of
            None \<Rightarrow> None
          | Some (rest1, member, room1) \<Rightarrow> Some (room # rest1, member, room1)))"

definition handleDisconnect :: "string \<Rightarrow> 'doc state \<Rightarrow> 'doc result" where
  "handleDisconnect client s =
    (case disconnectLoop client (activeRooms s) of
       None \<Rightarrow> (s, [], Returned)
     | Some (rooms1, member, room) \<Rightarrow>
         let currentSelections =
               map (selectionEntry False)
                 (filter (\<lambda>m. truthyObj (lastSelection m) \<and> online m) (members room));
             onlineMembers = filter online (members room)
         in (s\<lparr>activeRooms :=
                  (if length onlineMembers = 0
                   then removeFirst (\<lambda>r. rid r = rid room) rooms1
                   else rooms1)\<rparr>,
             [(ToRoom (rid room), MemberLeft (telegramId member) True),
              (ToRoom (rid room),
                 MembersUpdated (map (memberView None) (members room)) Leave
                   (telegramId member)),
              (ToRoom (rid room), SelectionState currentSelections (telegramId member))],
             Returned))"

section \<open>Runs of the gateway\<close>

datatype request =
  JoinRoomReq string JoinPayload
| EditRoomReq string EditPayload
| CursorReq string CursorPayload
| SelectionReq string SelectionPayload
| CodeEditReq string CodeEditPayload
| EditMemberReq string EditMember
| CloseSessionReq string JoinPayload
| DisconnectReq string
| StoreChanged "DurableRoom list"

text \<open>
  A request carries the connection it comes from. \<open>StoreChanged\<close> stands for a write
  to the durable table made outside the gateway (the REST side of the service).
\<close>

fun dispatch :: "'doc engine \<Rightarrow> nat \<Rightarrow> request \<Rightarrow> 'doc state \<Rightarrow> 'doc result" where
  "dispatch eng now (JoinRoomReq client data) s = handleJoinRoom eng now client data s"
| "dispatch eng now (EditRoomReq client data) s = handleEditRoom client data s"
| "dispatch eng now (CursorReq client data) s = handleCursor now client data s"
| "dispatch eng now (SelectionReq client data) s = handleSelection now client data s"
| "dispatch eng now (CodeEditReq client data) s = handleCodeEdit eng now client data s"
| "dispatch eng now (EditMemberReq client data) s = handleEditMember client data s"
| "dispatch eng now (CloseSessionReq client data) s = handleCloseSession client data s"
| "dispatch eng now (DisconnectReq client) s = handleDisconnect client s"
| "dispatch eng now (StoreChanged st) s = (s\<lparr>store := st\<rparr>, [], Returned)"

text \<open>The state after a sequence of timed requests, and the gateway at start.\<close>

fun run :: "'doc engine \<Rightarrow> (nat \<times> request) list \<Rightarrow> 'doc state \<Rightarrow> 'doc state" where
  "run eng [] s = s"
| "run eng (r # rs) s = run eng rs (fst (dispatch eng (fst r) (snd r) s))"

definition initial :: "DurableRoom list \<Rightarrow> 'doc state" where
  "initial st = \<lparr>activeRooms = [], docs = [], store = st\<rparr>"

section \<open>A concrete gateway for evaluating the handlers\<close>

text \<open>
  An engine whose document is the log of the updates applied to it; like the real engine
  on a blob that ends too early, it rejects the empty blob.
\<close>

definition logEngine :: "bytes list engine" where
  "logEngine =
    \<lparr>newDoc = [],
     applyUpdate = (\<lambda>doc u. if u = [] then Rejected doc else Applied (doc @ [u])),
     encodeStateAsUpdate = concat\<rparr>"

text \<open>Two durable rooms of the teacher \<open>T\<close>, with the toggles left unset.\<close>

definition roomOne :: DurableRoom where
  "roomOne =
    \<lparr>id_d = ''r1'', teacher_d = ''T'', students_d = [],
     studentCursorEnabled_d = None, studentSelectionEnabled_d = None,
     studentEditCodeEnabled_d = None, completed_d = False,
     language_d = Some ''js'', taskId_d = None\<rparr>"

definition roomTwo :: DurableRoom where
  "roomTwo = roomOne\<lparr>id_d := ''r2''\<rparr>"

definition joinAs :: "string \<Rightarrow> string \<Rightarrow> JoinPayload" where
  "joinAs tid roomId = \<lparr>telegramId_j = tid, username_j = None, roomId_j = roomId\<rparr>"

definition joinNamed :: "string \<Rightarrow> string \<Rightarrow> string \<Rightarrow> JoinPayload" where
  "joinNamed tid roomId name = \<lparr>telegramId_j = tid, username_j = Some name, roomId_j = roomId\<rparr>"

definition cursorAt :: "string \<Rightarrow> string \<Rightarrow> int list \<Rightarrow> CursorPayload" where
  "cursorAt tid roomId pos =
    \<lparr>roomId_c = roomId, position = pos, logs = [], telegramId_c = tid\<rparr>"

definition pointAt :: "string \<Rightarrow> string \<Rightarrow> int \<Rightarrow> int \<Rightarrow> SelectionPayload" where
  "pointAt tid roomId l c =
    \<lparr>line = Some l, column = Some c, selectionStart = None, selectionEnd = None,
     selectedText = None, roomId_s = roomId, telegramId_s = tid, clearSelection = None\<rparr>"

definition editOf :: "string \<Rightarrow> string \<Rightarrow> bytes \<Rightarrow> CodeEditPayload" where
  "editOf tid roomId u = \<lparr>roomId_u = roomId, telegramId_u = tid, update_u = u\<rparr>"

definition onlyCursorToggle :: "string \<Rightarrow> string \<Rightarrow> bool \<Rightarrow> EditPayload" where
  "onlyCursorToggle tid roomId b =
    \<lparr>roomId_e = roomId, telegramId_e = tid, studentCursorEnabled_e = Given b,
     studentEditCodeEnabled_e = Undefined, studentSelectionEnabled_e = Undefined,
     language_e = Undefined, taskId_e = Undefined\<rparr>"

definition editAndSelectionOff :: "string \<Rightarrow> string \<Rightarrow> EditPayload" where
  "editAndSelectionOff tid roomId =
    \<lparr>roomId_e = roomId, telegramId_e = tid, studentCursorEnabled_e = Undefined,
     studentEditCodeEnabled_e = Given False, studentSelectionEnabled_e = Given False,
     language_e = Undefined, taskId_e = Undefined\<rparr>"

definition onlyCursorNull :: "string \<Rightarrow> string \<Rightarrow> EditPayload" where
  "onlyCursorNull tid roomId =
    \<lparr>roomId_e = roomId, telegramId_e = tid, studentCursorEnabled_e = Null,
     studentEditCodeEnabled_e = Undefined, studentSelectionEnabled_e = Undefined,
     language_e = Undefined, taskId_e = Undefined\<rparr>"

definition renameOf :: "string \<Rightarrow> string \<Rightarrow> string \<Rightarrow> string \<Rightarrow> EditMember" where
  "renameOf tid roomId target name =
    \<lparr>telegramId_j = tid, username_j = Some name, roomId_j = roomId,
     changeTelegramId = target\<rparr>"

text \<open>
  States the gateway reaches from an empty registry, each by the requests listed. The
  number beside a request is the clock reading at that request.
\<close>

definition oneTeacher :: "bytes list state" where
  "oneTeacher = run logEngine [(1, JoinRoomReq ''c0'' (joinAs ''T'' ''r1''))] (initial [roomOne])"

definition oneStudent :: "bytes list state" where
  "oneStudent = run logEngine [(1, JoinRoomReq ''c1'' (joinAs ''S'' ''r1''))] (initial [roomOne])"

definition cursorOff :: "bytes list state" where
  "cursorOff =
    run logEngine
      [(1, JoinRoomReq ''c0'' (joinAs ''T'' ''r1'')),
       (2, EditRoomReq ''c0'' (onlyCursorToggle ''T'' ''r1'' False))]
      (initial [roomOne])"

definition studentsMuted :: "bytes list state" where
  "studentsMuted =
    run logEngine
      [(1, JoinRoomReq ''c0'' (joinAs ''T'' ''r1'')),
       (2, EditRoomReq ''c0'' (editAndSelectionOff ''T'' ''r1'')),
       (3, StoreChanged [roomOne])]
      (initial [roomOne])"

definition reopened :: "bytes list state" where
  "reopened =
    run logEngine
      [(1, JoinRoomReq ''c0'' (joinAs ''T'' ''r1'')),
       (2, CloseSessionReq ''c0'' (joinAs ''T'' ''r1'')),
       (3, JoinRoomReq ''c1'' (joinAs ''S'' ''r1''))]
      (initial [roomOne])"

definition teacherAndStudent :: "bytes list state" where
  "teacherAndStudent =
    run logEngine
      [(1, JoinRoomReq ''c0'' (joinAs ''T'' ''r1'')),
       (2, JoinRoomReq ''c1'' (joinAs ''S'' ''r1'')),
       (3, CursorReq ''c1'' (cursorAt ''S'' ''r1'' [3, 4])),
       (4, SelectionReq ''c1'' (pointAt ''S'' ''r1'' 3 5))]
      (initial [roomOne])"

definition leftAndBack :: "bytes list state" where
  "leftAndBack =
    run logEngine
      [(1, JoinRoomReq ''c0'' (joinAs ''T'' ''r1'')),
       (2, JoinRoomReq ''c1'' (joinAs ''S'' ''r1'')),
       (3, CursorReq ''c1'' (cursorAt ''S'' ''r1'' [3, 4])),
       (4, DisconnectReq ''c1'')]
      (initial [roomOne])"

definition selected :: "bytes list state" where
  "selected =
    run logEngine
      [(1, JoinRoomReq ''c1'' (joinAs ''S'' ''r1'')),
       (2, SelectionReq ''c1'' (pointAt ''S'' ''r1'' 3 5))]
      (initial [roomOne])"

definition twoStudents :: "bytes list state" where
  "twoStudents =
    run logEngine
      [(1, JoinRoomReq ''c1'' (joinAs ''S1'' ''r1'')),
       (2, JoinRoomReq ''c2'' (joinAs ''S2'' ''r1''))]
      (initial [roomOne])"

definition oneSocketTwoRooms :: "bytes list state" where
  "oneSocketTwoRooms =
    run logEngine
      [(1, JoinRoomReq ''c1'' (joinAs ''S'' ''r1'')),
       (2, JoinRoomReq ''c1'' (joinAs ''S'' ''r2''))]
      (initial [roomOne, roomTwo])"

text \<open>Who is in which room, on which connection, and whether online.\<close>

definition presence :: "Room list \<Rightarrow> (string \<times> (string \<times> string \<times> bool) list) list" where
  "presence rooms =
    map (\<lambda>r. (rid r, map (\<lambda>m. (telegramId m, clientId m, online m)) (members r))) rooms"

section \<open>Vocabulary of the properties\<close>

text \<open>The events of a handler that go to a room rather than to one connection.\<close>

definition roomWide :: "emit list \<Rightarrow> emit list" where
  "roomWide evs = filter (\<lambda>e. case fst e of ToClient _ \<Rightarrow> False | _ \<Rightarrow> True) evs"

text \<open>
  The invariant of the registry: room identifiers are unique; in a room the identities
  are unique and every member has the color of its identity; the toggles are set.
\<close>

definition membersOk :: "Member list \<Rightarrow> bool" where
  "membersOk ms =
    (distinct (map telegramId ms) \<and>
     (\<forall>m\<in>set ms. userColor m = Some (generateUserColor (telegramId m))))"

definition roomOk :: "Room \<Rightarrow> bool" where
  "roomOk r =
    (membersOk (members r) \<and> studentCursorEnabled r \<noteq> None \<and>
     studentSelectionEnabled r \<noteq> None \<and> studentEditCodeEnabled r \<noteq> None)"

definition registryOk :: "Room list \<Rightarrow> bool" where
  "registryOk rs = (distinct (map rid rs) \<and> (\<forall>r\<in>set rs. roomOk r))"

section \<open>Lists changed through their first matching element\<close>

lemma find_SomeD: "find P xs = Some x \<Longrightarrow> x \<in> set xs \<and> P x"
  by (induction xs) (auto split: if_splits)

lemma modifyFirst_map:
  "(\<And>x. x \<in> set xs \<Longrightarrow> P x \<Longrightarrow> g (f x) = g x) \<Longrightarrow> map g (modifyFirst P f xs) = map g xs"
  by (induction xs) auto

lemma modifyFirst_all:
  "(\<And>x. x \<in> set xs \<Longrightarrow> Q x) \<Longrightarrow> (\<And>x. x \<in> set xs \<Longrightarrow> P x \<Longrightarrow> Q (f x)) \<Longrightarrow>
   y \<in> set (modifyFirst P f xs) \<Longrightarrow> Q y"
  by (induction xs) (auto split: if_splits)

lemma removeFirst_subset: "y \<in> set (removeFirst P xs) \<Longrightarrow> y \<in> set xs"
  by (induction xs) (auto split: if_splits)

lemma removeFirst_distinct: "distinct (map g xs) \<Longrightarrow> distinct (map g (removeFirst P xs))"
  by (induction xs) (auto dest: removeFirst_subset)

section \<open>The invariant of the registry holds in every state the gateway reaches\<close>

lemma membersOk_modify:
  "membersOk ms \<Longrightarrow> (\<And>m. telegramId (f m) = telegramId m \<and> userColor (f m) = userColor m) \<Longrightarrow>
   membersOk (modifyFirst P f ms)"
  unfolding membersOk_def
proof (intro conjI ballI)
  assume ok: "distinct (map telegramId ms) \<and> (\<forall>m\<in>set ms. userColor m = Some (generateUserColor (telegramId m)))"
    and f: "\<And>m. telegramId (f m) = telegramId m \<and> userColor (f m) = userColor m"
  have "map telegramId (modifyFirst P f ms) = map telegramId ms"
    by (rule modifyFirst_map) (simp add: f)
  with ok show "distinct (map telegramId (modifyFirst P f ms))" by simp
  fix m assume m: "m \<in> set (modifyFirst P f ms)"
  show "userColor m = Some (generateUserColor (telegramId m))"
    by (rule modifyFirst_all [where Q = "\<lambda>m. userColor m = Some (generateUserColor (telegramId m))", OF _ _ m])
       (use ok f in auto)
qed

lemma membersOk_upsert: "membersOk ms \<Longrightarrow> membersOk (upsertMember now client tid uname ms)"
proof (cases "find (\<lambda>member. telegramId member = tid) ms")
  case None
  assume ok: "membersOk ms"
  from None have "tid \<notin> telegramId ` set ms" by (auto simp: find_None_iff)
  with ok None show ?thesis
    by (auto simp: upsertMember_def membersOk_def newMember_def)
next
  case (Some a)
  assume ok: "membersOk ms"
  with Some show ?thesis
    by (simp add: upsertMember_def) (rule membersOk_modify, simp_all add: rejoin_def)
qed

lemma roomOk_members:
  "roomOk r \<Longrightarrow> membersOk ms \<Longrightarrow> roomOk (r\<lparr>members := ms\<rparr>)"
  by (simp add: roomOk_def)

lemma registryOk_modify:
  assumes "registryOk rs"
    and "\<And>r. r \<in> set rs \<Longrightarrow> P r \<Longrightarrow> roomOk r \<Longrightarrow> rid (f r) = rid r \<and> roomOk (f r)"
  shows "registryOk (modifyFirst P f rs)"
proof -
  have "map rid (modifyFirst P f rs) = map rid rs"
    by (rule modifyFirst_map) (use assms in \<open>auto simp: registryOk_def\<close>)
  moreover have "\<And>y. y \<in> set (modifyFirst P f rs) \<Longrightarrow> roomOk y"
    by (rule modifyFirst_all [where Q = roomOk]) (use assms in \<open>auto simp: registryOk_def\<close>)
  ultimately show ?thesis using assms(1) by (simp add: registryOk_def)
qed

lemma newActiveRoom_ok: "roomOk (newActiveRoom room)"
  by (auto simp: roomOk_def newActiveRoom_def membersOk_def nullish_def split: option.splits)

lemma join_registryOk:
  assumes "registryOk (activeRooms s)"
  shows "registryOk (activeRooms (fst (handleJoinRoom eng now client data s)))"
proof (cases "getRoom (store s) (roomId_j data)")
  case None
  then show ?thesis using assms by (simp add: handleJoinRoom_def)
next
  case (Some room0)
  show ?thesis
  proof (cases "if \<not> (teacher_d room0 = telegramId_j data \<or> telegramId_j data \<in> set (students_d room0))
                then joinRoom (store s) (id_d room0) (telegramId_j data) else Inr (store s, room0)")
    case (Inl e)
    then show ?thesis using assms Some by (simp add: handleJoinRoom_def Let_def)
  next
    case (Inr p)
    obtain store1 room where p: "p = (store1, room)" by (cases p)
    show ?thesis
    proof (cases "find (\<lambda>r. rid r = id_d room) (activeRooms s)")
      case None
      have fresh: "id_d room \<notin> rid ` set (activeRooms s)"
        using None by (auto simp: find_None_iff)
      have "roomOk ((newActiveRoom room)\<lparr>members := upsertMember now client (telegramId_j data) (username_j data) (members (newActiveRoom room))\<rparr>)"
        using newActiveRoom_ok [of room]
        by (intro roomOk_members membersOk_upsert) (simp_all add: roomOk_def)
      moreover have "rid (newActiveRoom room) = id_d room" by (simp add: newActiveRoom_def)
      ultimately show ?thesis
        using assms Some Inr p None fresh
        by (simp add: handleJoinRoom_def Let_def registryOk_def)
    next
      case (Some ar)
      have "registryOk (modifyFirst (\<lambda>r. rid r = id_d room)
              (\<lambda>_. ar\<lparr>members := upsertMember now client (telegramId_j data) (username_j data) (members ar)\<rparr>)
              (activeRooms s))"
      proof (rule registryOk_modify [OF assms])
        fix r assume "r \<in> set (activeRooms s)" "rid r = id_d room" "roomOk r"
        moreover have "rid ar = id_d room" "ar \<in> set (activeRooms s)"
          using find_SomeD [OF Some] by auto
        moreover have "roomOk ar" using assms \<open>ar \<in> set (activeRooms s)\<close> by (simp add: registryOk_def)
        ultimately show "rid (ar\<lparr>members := upsertMember now client (telegramId_j data) (username_j data) (members ar)\<rparr>) = rid r \<and>
           roomOk (ar\<lparr>members := upsertMember now client (telegramId_j data) (username_j data) (members ar)\<rparr>)"
          by (auto intro!: roomOk_members membersOk_upsert simp: roomOk_def)
      qed
      then show ?thesis
        using \<open>getRoom (store s) (roomId_j data) = Some room0\<close> Inr p Some
        by (simp add: handleJoinRoom_def Let_def)
    qed
  qed
qed

lemma editRoom_id: "editRoom st i dto = Inr (st1, u) \<Longrightarrow> id_d u = i"
  by (auto simp: editRoom_def Let_def split: option.splits dest!: find_SomeD)

lemma getRoom_id: "getRoom st i = Some room \<Longrightarrow> id_d room = i"
  by (auto simp: getRoom_def dest!: find_SomeD)

lemma mergeToggles_ok:
  "roomOk item \<Longrightarrow> roomOk ar \<Longrightarrow> roomOk (mergeToggles data (Some ar) room item)"
  by (auto simp: roomOk_def mergeToggles_def mergeToggle_def nullish_def
           split: option.splits given.splits)

lemma rid_mergeToggles: "rid (mergeToggles data a room item) = rid item"
  by (simp add: mergeToggles_def)

lemma registryOk_map_toggles:
  assumes ok: "registryOk rs"
  shows "registryOk (map (\<lambda>item. if rid item = i
           then mergeToggles data (find (\<lambda>r. rid r = i) rs) room item else item) rs)"
proof -
  let ?g = "\<lambda>item. if rid item = i
           then mergeToggles data (find (\<lambda>r. rid r = i) rs) room item else item"
  have "map rid (map ?g rs) = map rid rs"
    by (simp add: rid_mergeToggles)
  then have d: "distinct (map rid (map ?g rs))"
    using ok by (simp only: registryOk_def)
  have each: "roomOk (?g item)" if "item \<in> set rs" for item
  proof (cases "rid item = i")
    case False
    then show ?thesis using ok that by (simp add: registryOk_def)
  next
    case True
    with that have "find (\<lambda>r. rid r = i) rs \<noteq> None"
      by (auto simp: find_None_iff)
    then obtain ar where ar: "find (\<lambda>r. rid r = i) rs = Some ar"
      by auto
    then have "roomOk ar" using ok by (auto simp: registryOk_def dest!: find_SomeD)
    moreover have "roomOk item" using ok that by (simp add: registryOk_def)
    ultimately show ?thesis using True ar by (simp add: mergeToggles_ok)
  qed
  have "\<forall>r\<in>set (map ?g rs). roomOk r"
    using each by (simp only: set_map ball_simps) blast
  with d show ?thesis unfolding registryOk_def by blast
qed

lemma editRoom_registryOk:
  assumes ok: "registryOk (activeRooms s)"
  shows "registryOk (activeRooms (fst (handleEditRoom client data s)))"
proof (cases "getRoom (store s) (roomId_e data)")
  case None
  then show ?thesis using ok by (simp add: handleEditRoom_def)
next
  case (Some room)
  show ?thesis
  proof (cases "teacher_d room \<noteq> telegramId_e data \<or> completed_d room")
    case True
    then show ?thesis using ok Some by (auto simp add: handleEditRoom_def)
  next
    case False
    show ?thesis
    proof (cases "editRoom (store s) (id_d room) data")
      case (Inl e)
      then show ?thesis using ok Some False by (simp add: handleEditRoom_def)
    next
      case (Inr p)
      obtain store1 u where p: "p = (store1, u)" by (cases p)
      have idu: "id_d u = id_d room" using Inr p by (auto dest: editRoom_id)
      have eq: "activeRooms (fst (handleEditRoom client data s)) =
        map (\<lambda>item. if rid item = id_d room
           then mergeToggles data (find (\<lambda>r. rid r = id_d room) (activeRooms s)) room item
           else item) (activeRooms s)"
        using Some False Inr p idu by (simp add: handleEditRoom_def)
      show ?thesis unfolding eq by (rule registryOk_map_toggles [OF ok])
    qed
  qed
qed

lemma registryOk_set_members:
  assumes "registryOk rs" "membersOk ms"
  shows "registryOk (modifyFirst P (\<lambda>room. room\<lparr>members := ms\<rparr>) rs)"
  by (rule registryOk_modify [OF assms(1)]) (simp add: roomOk_def assms(2))

lemma found_roomOk:
  "registryOk rs \<Longrightarrow> find P rs = Some ar \<Longrightarrow> roomOk ar"
  by (auto simp: registryOk_def dest!: find_SomeD)

lemma found_membersOk:
  "registryOk rs \<Longrightarrow> find P rs = Some ar \<Longrightarrow> membersOk (members ar)"
  by (auto simp: registryOk_def roomOk_def dest!: find_SomeD)

lemma membersOk_touch:
  assumes "membersOk ms" "\<And>m. telegramId (f m) = telegramId m \<and> userColor (f m) = userColor m"
  shows "membersOk (case x of None \<Rightarrow> ms | Some _ \<Rightarrow> modifyFirst P f ms)"
  using assms by (cases x) (simp_all add: membersOk_modify)

lemma cursor_registryOk:
  assumes ok: "registryOk (activeRooms s)"
  shows "registryOk (activeRooms (fst (handleCursor now client data s)))"
proof (cases "find (\<lambda>room. rid room = roomId_c data) (activeRooms s)")
  case None
  then show ?thesis using ok by (simp add: handleCursor_def)
next
  case (Some ar)
  show ?thesis
  proof (cases "completed ar \<or> \<not> truthyBool (studentCursorEnabled ar) \<or> length (position data) \<noteq> 2")
    case True
    then show ?thesis using ok Some by (auto simp: handleCursor_def)
  next
    case False
    have "membersOk (case find (\<lambda>m. telegramId m = telegramId_c data) (members ar) of
              None \<Rightarrow> members ar
            | Some _ \<Rightarrow> modifyFirst (\<lambda>m. telegramId m = telegramId_c data)
                 (\<lambda>m. m\<lparr>lastCursorPosition := Some (position data ! 0, position data ! 1),
                         lastActivity := Some now\<rparr>) (members ar))"
      by (rule membersOk_touch [OF found_membersOk [OF ok Some]]) simp
    then show ?thesis using ok Some False
      by (simp add: handleCursor_def Let_def registryOk_set_members)
  qed
qed

lemma applySelection_keeps:
  "telegramId (applySelection now data m) = telegramId m \<and>
   userColor (applySelection now data m) = userColor m"
  by (simp add: applySelection_def Let_def)

lemma selection_registryOk:
  assumes ok: "registryOk (activeRooms s)"
  shows "registryOk (activeRooms (fst (handleSelection now client data s)))"
proof (cases "find (\<lambda>room. rid room = roomId_s data) (activeRooms s)")
  case None
  then show ?thesis using ok by (simp add: handleSelection_def)
next
  case (Some ar)
  show ?thesis
  proof (cases "(completed ar \<and> teacher ar \<noteq> telegramId_s data) \<or>
                (\<not> truthyBool (studentSelectionEnabled ar) \<and> teacher ar \<noteq> telegramId_s data)")
    case True
    then show ?thesis using ok Some by (auto simp: handleSelection_def)
  next
    case False
    have "membersOk (case find (\<lambda>m. telegramId m = telegramId_s data) (members ar) of
              None \<Rightarrow> members ar
            | Some _ \<Rightarrow> modifyFirst (\<lambda>m. telegramId m = telegramId_s data)
                 (applySelection now data) (members ar))"
      by (rule membersOk_touch [OF found_membersOk [OF ok Some]]) (rule applySelection_keeps)
    then show ?thesis using ok Some False
      by (simp add: handleSelection_def Let_def registryOk_set_members)
  qed
qed

lemma codeEdit_registryOk:
  assumes ok: "registryOk (activeRooms s)"
  shows "registryOk (activeRooms (fst (handleCodeEdit eng now client data s)))"
proof (cases "find (\<lambda>room. rid room = roomId_u data) (activeRooms s)")
  case None
  then show ?thesis using ok by (simp add: handleCodeEdit_def)
next
  case (Some ar)
  show ?thesis
  proof (cases "(completed ar \<and> teacher ar \<noteq> telegramId_u data) \<or>
                (\<not> truthyBool (studentEditCodeEnabled ar) \<and> telegramId_u data \<noteq> teacher ar) \<or>
                telegramId_u data = []")
    case True
    then show ?thesis using ok Some by (auto simp: handleCodeEdit_def)
  next
    case False
    have m: "membersOk (case find (\<lambda>m. telegramId m = telegramId_u data) (members ar) of
              None \<Rightarrow> members ar
            | Some _ \<Rightarrow> modifyFirst (\<lambda>m. telegramId m = telegramId_u data)
                 (\<lambda>m. m\<lparr>lastActivity := Some now\<rparr>) (members ar))"
      by (rule membersOk_touch [OF found_membersOk [OF ok Some]]) simp
    show ?thesis
    proof (cases "applyUpdate eng (snd (getOrCreateDoc eng (docs s) (roomId_u data))) (update_u data)")
      case (Applied d)
      then show ?thesis using ok Some False m
        by (simp add: handleCodeEdit_def Let_def registryOk_set_members)
    next
      case (Rejected d)
      then show ?thesis using ok Some False m
        by (simp add: handleCodeEdit_def Let_def registryOk_set_members)
    qed
  qed
qed

lemma editMember_registryOk:
  assumes ok: "registryOk (activeRooms s)"
  shows "registryOk (activeRooms (fst (handleEditMember client data s)))"
proof (cases "find (\<lambda>room. rid room = roomId_j data) (activeRooms s)")
  case None
  then show ?thesis using ok by (simp add: handleEditMember_def)
next
  case (Some ar)
  show ?thesis
  proof (cases "find (\<lambda>m. telegramId m = changeTelegramId data) (members ar)")
    case None
    then show ?thesis using ok Some by (simp add: handleEditMember_def)
  next
    case (Some member)
    have "membersOk (modifyFirst (\<lambda>m. telegramId m = changeTelegramId data)
                          (\<lambda>m. m\<lparr>username := username_j data\<rparr>) (members ar))"
      by (rule membersOk_modify [OF found_membersOk [OF ok \<open>find (\<lambda>room. rid room = roomId_j data) (activeRooms s) = Some ar\<close>]]) simp
    then show ?thesis
      using ok Some \<open>find (\<lambda>room. rid room = roomId_j data) (activeRooms s) = Some ar\<close>
      by (simp add: handleEditMember_def Let_def registryOk_set_members)
  qed
qed

lemma registryOk_filter: "registryOk rs \<Longrightarrow> registryOk (filter P rs)"
  by (simp add: registryOk_def distinct_map_filter)

lemma closeSession_registryOk:
  assumes ok: "registryOk (activeRooms s)"
  shows "registryOk (activeRooms (fst (handleCloseSession client data s)))"
proof (cases "getRoom (store s) (roomId_j data)")
  case None
  then show ?thesis using ok by (simp add: handleCloseSession_def)
next
  case (Some room)
  show ?thesis
  proof (cases "completeRoom (store s) (roomId_j data)")
    case (Inl e)
    then show ?thesis using ok Some by (simp add: handleCloseSession_def)
  next
    case (Inr st)
    then show ?thesis using ok Some by (simp add: handleCloseSession_def registryOk_filter)
  qed
qed

lemma registryOk_removeFirst: "registryOk rs \<Longrightarrow> registryOk (removeFirst P rs)"
  by (auto simp: registryOk_def removeFirst_distinct dest: removeFirst_subset)

lemma disconnectLoop_rooms:
  "disconnectLoop client rs = Some (rs1, m, r) \<Longrightarrow>
   rs1 = modifyFirst (\<lambda>room. find (\<lambda>m. clientId m = client) (members room) \<noteq> None)
           (leaveRoom client) rs"
  by (induction rs arbitrary: rs1) (auto split: option.splits)

lemma leaveRoom_ok: "roomOk r \<Longrightarrow> rid (leaveRoom client r) = rid r \<and> roomOk (leaveRoom client r)"
  by (simp add: leaveRoom_def roomOk_def membersOk_modify)

lemma disconnect_registryOk:
  assumes ok: "registryOk (activeRooms s)"
  shows "registryOk (activeRooms (fst (handleDisconnect client s)))"
proof (cases "disconnectLoop client (activeRooms s)")
  case None
  then show ?thesis using ok by (simp add: handleDisconnect_def)
next
  case (Some t)
  obtain rs1 m r where t: "t = (rs1, m, r)" by (cases t)
  have "registryOk rs1"
    unfolding disconnectLoop_rooms [OF Some [unfolded t]]
    by (rule registryOk_modify [OF ok]) (simp add: leaveRoom_ok)
  then show ?thesis using Some t
    by (simp add: handleDisconnect_def Let_def registryOk_removeFirst)
qed

lemma dispatch_registryOk:
  "registryOk (activeRooms s) \<Longrightarrow> registryOk (activeRooms (fst (dispatch eng now req s)))"
  by (cases req)
     (simp_all add: join_registryOk editRoom_registryOk cursor_registryOk selection_registryOk
        codeEdit_registryOk editMember_registryOk closeSession_registryOk disconnect_registryOk)

lemma run_registryOk:
  "registryOk (activeRooms s) \<Longrightarrow> registryOk (activeRooms (run eng reqs s))"
  by (induction reqs arbitrary: s) (simp_all add: dispatch_registryOk)

lemma reachable_registryOk: "registryOk (activeRooms (run eng reqs (initial st)))"
  by (rule run_registryOk) (simp add: initial_def registryOk_def)

section \<open>Facts about single handlers\<close>

lemma distinct_filter_le1:
  "distinct (map f xs) \<Longrightarrow> length (filter (\<lambda>x. f x = a) xs) \<le> 1"
proof (induction xs)
  case Nil
  then show ?case by simp
next
  case (Cons x xs)
  show ?case
  proof (cases "f x = a")
    case True
    with Cons.prems have "\<forall>y\<in>set xs. f y \<noteq> a"
      by (metis distinct.simps(2) image_eqI list.simps(9) set_map)
    then have "filter (\<lambda>x. f x = a) xs = []"
      by (simp add: filter_empty_conv)
    with True show ?thesis by simp
  next
    case False
    with Cons show ?thesis by simp
  qed
qed

lemma color_in_table: "generateUserColor userId \<in> set colors"
  unfolding generateUserColor_def by (rule nth_mem) (simp add: colors_def)

lemma find_append_new: "find P xs = None \<Longrightarrow> P a \<Longrightarrow> find P (xs @ [a]) = Some a"
  by (induction xs) (auto split: if_splits)

lemma find_modifyFirst_const:
  "find P xs = Some x \<Longrightarrow> P a \<Longrightarrow> find P (modifyFirst P (\<lambda>_. a) xs) = Some a"
  by (induction xs) (auto split: if_splits)

lemma find_map_keeping:
  "(\<And>x. P (g x) = P x) \<Longrightarrow> find P (map g xs) = map_option g (find P xs)"
  by (induction xs) auto

lemma join_enrol:
  assumes "getRoom st i = Some room0"
  shows "\<exists>st1 ss. (if \<not> (teacher_d room0 = tid \<or> tid \<in> set (students_d room0))
                   then joinRoom st (id_d room0) tid else Inr (st, room0)) =
                  Inr (st1, room0\<lparr>students_d := ss\<rparr>)"
proof (cases "teacher_d room0 = tid \<or> tid \<in> set (students_d room0)")
  case True
  have "room0 = room0\<lparr>students_d := students_d room0\<rparr>" by simp
  with True show ?thesis by (metis (full_types))
next
  case False
  have f: "find (\<lambda>r. id_d r = id_d room0) st = Some room0"
    using assms getRoom_id [OF assms] by (simp add: getRoom_def)
  have "find (\<lambda>student. student = tid) (students_d room0) = None"
    using False by (auto simp: find_None_iff)
  then have "joinRoom st (id_d room0) tid =
      Inr (modifyFirst (\<lambda>r. id_d r = id_d room0) (\<lambda>_. room0\<lparr>students_d := students_d room0 @ [tid]\<rparr>) st,
           room0\<lparr>students_d := students_d room0 @ [tid]\<rparr>)"
    using False f by (simp add: joinRoom_def truthyStr_def Let_def)
  with False show ?thesis by auto
qed

text \<open>The active room after a join of a room that was active before.\<close>

lemma join_active_room:
  assumes room0: "getRoom (store s) (roomId_j data) = Some room0"
    and found: "find (\<lambda>r. rid r = roomId_j data) (activeRooms s) = Some r"
  shows "find (\<lambda>r. rid r = roomId_j data)
           (activeRooms (fst (handleJoinRoom eng now client data s))) =
         Some (r\<lparr>members :=
                 upsertMember now client (telegramId_j data) (username_j data) (members r)\<rparr>)"
proof -
  let ?tid = "telegramId_j data" and ?i = "roomId_j data"
  let ?ar = "r\<lparr>members := upsertMember now client ?tid (username_j data) (members r)\<rparr>"
  obtain st1 ss where enrol:
    "(if \<not> (teacher_d room0 = ?tid \<or> ?tid \<in> set (students_d room0))
      then joinRoom (store s) (id_d room0) ?tid else Inr (store s, room0)) =
     Inr (st1, room0\<lparr>students_d := ss\<rparr>)"
    using join_enrol [OF room0] by blast
  have i: "id_d room0 = ?i" by (rule getRoom_id [OF room0])
  have rid: "rid r = ?i" using find_SomeD [OF found] by simp
  have "find (\<lambda>r. rid r = ?i) (modifyFirst (\<lambda>r. rid r = ?i) (\<lambda>_. ?ar) (activeRooms s)) = Some ?ar"
    by (rule find_modifyFirst_const [OF found]) (simp add: rid)
  then show ?thesis
    using room0 enrol found i by (simp add: handleJoinRoom_def Let_def)
qed

lemma color_of_S: "generateUserColor ''S'' = ''#BB8FCE''"
  by code_simp

text \<open>What a join that finds its durable room returns.\<close>

lemma join_result:
  assumes room0: "getRoom (store s) (roomId_j data) = Some room0"
    and ok: "registryOk (activeRooms s)"
  shows "\<exists>ar s1.
    find (\<lambda>r. rid r = roomId_j data) (activeRooms s1) = Some ar \<and>
    members ar =
      upsertMember now client (telegramId_j data) (username_j data)
        (case find (\<lambda>r. rid r = roomId_j data) (activeRooms s) of
           None \<Rightarrow> [] | Some r \<Rightarrow> members r) \<and>
    handleJoinRoom eng now client data s =
      (s1,
       [(ToRoom (roomId_j data),
           MembersUpdated (map (memberView (Some (telegramId_j data))) (members ar)) Join
             (telegramId_j data)),
        (ToClient client,
           Joined
             \<lparr>telegramId_jd = telegramId_j data,
              currentCursors =
                map cursorEntry
                  (filter (\<lambda>m. lastCursorPosition m \<noteq> None \<and> online m) (members ar)),
              currentSelections =
                map (selectionEntry True)
                  (filter (\<lambda>m. lastSelection m \<noteq> None \<and> online m) (members ar)),
              userColor_jd = Some (generateUserColor (telegramId_j data)),
              isTeacher = (teacher_d room0 = telegramId_j data),
              roomPermissions =
                (studentCursorEnabled ar, studentSelectionEnabled ar,
                 studentEditCodeEnabled ar),
              language_jd = language_d room0,
              completed_jd = completed_d room0\<rparr>),
        (ToClient client,
           CodeEditAction
             (encodeStateAsUpdate eng (snd (getOrCreateDoc eng (docs s) (roomId_j data))))
             None None None),
        (ToClient client,
           SelectionState
             (map (selectionEntry True)
                (filter (\<lambda>m. lastSelection m \<noteq> None \<and> online m) (members ar)))
             (telegramId_j data))],
       Returned)"
proof -
  let ?tid = "telegramId_j data" and ?i = "roomId_j data"
  obtain st1 ss where enrol:
    "(if \<not> (teacher_d room0 = ?tid \<or> ?tid \<in> set (students_d room0))
      then joinRoom (store s) (id_d room0) ?tid else Inr (store s, room0)) =
     Inr (st1, room0\<lparr>students_d := ss\<rparr>)"
    using join_enrol [OF room0] by blast
  have i: "id_d room0 = ?i" by (rule getRoom_id [OF room0])
  have tob: "truthyObj x = (x \<noteq> None)" for x :: "'z option"
    by (cases x) (simp_all add: truthyObj_def)
  show ?thesis
  proof (cases "find (\<lambda>r. rid r = ?i) (activeRooms s)")
    case None
    let ?ar = "(newActiveRoom (room0\<lparr>students_d := ss\<rparr>))
                 \<lparr>members := upsertMember now client ?tid (username_j data) []\<rparr>"
    have "find (\<lambda>r. rid r = ?i) (activeRooms s @ [?ar]) = Some ?ar"
      by (rule find_append_new [OF None]) (simp add: newActiveRoom_def i)
    then show ?thesis
      using room0 enrol None i
      by (simp add: handleJoinRoom_def Let_def tob newActiveRoom_def truthyStr_def)
  next
    case (Some r)
    let ?ar = "r\<lparr>members := upsertMember now client ?tid (username_j data) (members r)\<rparr>"
    have rid: "rid r = ?i" using find_SomeD [OF Some] by simp
    have f: "find (\<lambda>r. rid r = ?i) (modifyFirst (\<lambda>r. rid r = ?i) (\<lambda>_. ?ar) (activeRooms s)) = Some ?ar"
      by (rule find_modifyFirst_const [OF Some]) (simp add: rid)
    have mok: "membersOk (members r)" by (rule found_membersOk [OF ok Some])
    have col: "(case find (\<lambda>member. telegramId member = ?tid) (members r) of
                  None \<Rightarrow> None | Some m \<Rightarrow> userColor m) = None \<or>
               (case find (\<lambda>member. telegramId member = ?tid) (members r) of
                  None \<Rightarrow> None | Some m \<Rightarrow> userColor m) = Some (generateUserColor ?tid)"
      using mok by (auto simp: membersOk_def split: option.splits dest!: find_SomeD)
    have own: "truthyStr c \<longrightarrow> c = Some (generateUserColor ?tid)"
      if "c = None \<or> c = Some (generateUserColor ?tid)" for c
      using that by (auto simp: truthyStr_def)
    show ?thesis
      using room0 enrol Some i f own [OF col]
      by (simp add: handleJoinRoom_def Let_def tob)
  qed
qed

lemma editRoom_total:
  assumes "getRoom st i = Some room" "teacher_d room = telegramId_e dto"
  shows "\<exists>st1 u. editRoom st i dto = Inr (st1, u)"
proof -
  have "room \<in> set st \<and> id_d room = i" using assms(1) by (auto simp: getRoom_def dest: find_SomeD)
  then have "find (\<lambda>r. id_d r = i \<and> teacher_d r = telegramId_e dto) st \<noteq> None"
    using assms(2) by (auto simp: find_None_iff)
  then show ?thesis by (auto simp: editRoom_def Let_def)
qed

lemma modifyFirst_map_found:
  "find P xs = Some a \<Longrightarrow> g (f a) = g a \<Longrightarrow> map g (modifyFirst P f xs) = map g xs"
  by (induction xs) (auto split: if_splits)

lemma modifyFirst_split:
  "\<forall>x\<in>set pre. \<not> P x \<Longrightarrow> P a \<Longrightarrow> modifyFirst P f (pre @ a # post) = pre @ f a # post"
  by (induction pre) auto

lemma find_split:
  "\<forall>x\<in>set pre. \<not> P x \<Longrightarrow> P a \<Longrightarrow> find P (pre @ a # post) = Some a"
  by (induction pre) auto

lemma removeFirst_split:
  "\<forall>x\<in>set pre. \<not> P x \<Longrightarrow> P a \<Longrightarrow> removeFirst P (pre @ a # post) = pre @ post"
  by (induction pre) auto

lemma disconnectLoop_split:
  assumes "\<forall>r\<in>set pre. find (\<lambda>m. clientId m = client) (members r) = None"
    and "find (\<lambda>m. clientId m = client) (members room) = Some m"
  shows "disconnectLoop client (pre @ room # post) =
           Some (pre @ leaveRoom client room # post,
                 m\<lparr>online := False, lastSelection := None\<rparr>, leaveRoom client room)"
  using assms by (induction pre) auto

lemma modifyFirst_mem: "find P xs = Some x \<Longrightarrow> f x \<in> set (modifyFirst P f xs)"
  by (induction xs) (auto split: if_splits)

lemma upsert_joiner:
  "\<exists>m\<in>set (upsertMember now client tid uname ms).
     telegramId m = tid \<and> online m \<and> clientId m = client"
proof (cases "find (\<lambda>member. telegramId member = tid) ms")
  case None
  then show ?thesis by (simp add: upsertMember_def newMember_def)
next
  case (Some x)
  have "rejoin now client uname x \<in> set (upsertMember now client tid uname ms)"
    using Some modifyFirst_mem [OF Some] by (simp add: upsertMember_def)
  moreover have "telegramId x = tid" using find_SomeD [OF Some] by simp
  moreover have "online (rejoin now client uname x)" "clientId (rejoin now client uname x) = client"
    "telegramId (rejoin now client uname x) = telegramId x"
    by (simp_all add: rejoin_def)
  ultimately show ?thesis by blast
qed

section \<open>The states of the concrete gateway\<close>

lemma oneTeacher_eq:
  "oneTeacher =
    \<lparr>activeRooms = [\<lparr>rid = ''r1'', members = [\<lparr>clientId = ''c0'',
     telegramId = ''T'', username = None, online = True, lastCursorPosition = None,
     lastSelection = None, userColor = Some ''#85C1E9'', lastActivity = Some 1\<rparr>],
     teacher = ''T'', studentCursorEnabled = Some True,
     studentSelectionEnabled = Some True, studentEditCodeEnabled = Some True,
     completed = False\<rparr>], docs = [(''r1'', [])], store = [\<lparr>id_d = ''r1'',
     teacher_d = ''T'', students_d = [], studentCursorEnabled_d = None,
     studentSelectionEnabled_d = None, studentEditCodeEnabled_d = None,
     completed_d = False, language_d = Some ''js'', taskId_d = None\<rparr>]\<rparr>"
  by code_simp

lemma oneStudent_eq:
  "oneStudent =
    \<lparr>activeRooms = [\<lparr>rid = ''r1'', members = [\<lparr>clientId = ''c1'',
     telegramId = ''S'', username = None, online = True, lastCursorPosition = None,
     lastSelection = None, userColor = Some ''#BB8FCE'', lastActivity = Some 1\<rparr>],
     teacher = ''T'', studentCursorEnabled = Some True,
     studentSelectionEnabled = Some True, studentEditCodeEnabled = Some True,
     completed = False\<rparr>], docs = [(''r1'', [])], store = [\<lparr>id_d = ''r1'',
     teacher_d = ''T'', students_d = [''S''], studentCursorEnabled_d = None,
     studentSelectionEnabled_d = None, studentEditCodeEnabled_d = None,
     completed_d = False, language_d = Some ''js'', taskId_d = None\<rparr>]\<rparr>"
  by code_simp

lemma cursorOff_eq:
  "cursorOff =
    \<lparr>activeRooms = [\<lparr>rid = ''r1'', members = [\<lparr>clientId = ''c0'',
     telegramId = ''T'', username = None, online = True, lastCursorPosition = None,
     lastSelection = None, userColor = Some ''#85C1E9'', lastActivity = Some 1\<rparr>],
     teacher = ''T'', studentCursorEnabled = Some False,
     studentSelectionEnabled = Some True, studentEditCodeEnabled = Some True,
     completed = False\<rparr>], docs = [(''r1'', [])], store = [\<lparr>id_d = ''r1'',
     teacher_d = ''T'', students_d = [], studentCursorEnabled_d = Some False,
     studentSelectionEnabled_d = None, studentEditCodeEnabled_d = None,
     completed_d = False, language_d = Some ''js'', taskId_d = None\<rparr>]\<rparr>"
  by code_simp

lemma reopened_eq:
  "reopened =
    \<lparr>activeRooms = [\<lparr>rid = ''r1'', members = [\<lparr>clientId = ''c1'',
     telegramId = ''S'', username = None, online = True, lastCursorPosition = None,
     lastSelection = None, userColor = Some ''#BB8FCE'', lastActivity = Some 3\<rparr>],
     teacher = ''T'', studentCursorEnabled = Some True,
     studentSelectionEnabled = Some True, studentEditCodeEnabled = Some True,
     completed = True\<rparr>], docs = [(''r1'', [])], store = [\<lparr>id_d = ''r1'',
     teacher_d = ''T'', students_d = [''S''], studentCursorEnabled_d = None,
     studentSelectionEnabled_d = None, studentEditCodeEnabled_d = None,
     completed_d = True, language_d = Some ''js'', taskId_d = None\<rparr>]\<rparr>"
  by code_simp

lemma teacherAndStudent_eq:
  "teacherAndStudent =
    \<lparr>activeRooms = [\<lparr>rid = ''r1'', members = [\<lparr>clientId = ''c0'',
     telegramId = ''T'', username = None, online = True, lastCursorPosition = None,
     lastSelection = None, userColor = Some ''#85C1E9'', lastActivity = Some 1\<rparr>,
     \<lparr>clientId = ''c1'', telegramId = ''S'', username = None, online = True,
     lastCursorPosition = Some (3, 4), lastSelection = Some \<lparr>line = Some 3,
     column = Some 5, selectionStart = None, selectionEnd = None,
     selectedText = None\<rparr>, userColor = Some ''#BB8FCE'',
     lastActivity = Some 4\<rparr>], teacher = ''T'', studentCursorEnabled = Some True,
     studentSelectionEnabled = Some True, studentEditCodeEnabled = Some True,
     completed = False\<rparr>], docs = [(''r1'', [])], store = [\<lparr>id_d = ''r1'',
     teacher_d = ''T'', students_d = [''S''], studentCursorEnabled_d = None,
     studentSelectionEnabled_d = None, studentEditCodeEnabled_d = None,
     completed_d = False, language_d = Some ''js'', taskId_d = None\<rparr>]\<rparr>"
  by code_simp

lemma studentsMuted_eq:
  "studentsMuted =
    \<lparr>activeRooms = [\<lparr>rid = ''r1'', members = [\<lparr>clientId = ''c0'',
     telegramId = ''T'', username = None, online = True, lastCursorPosition = None,
     lastSelection = None, userColor = Some ''#85C1E9'', lastActivity = Some 1\<rparr>],
     teacher = ''T'', studentCursorEnabled = Some True,
     studentSelectionEnabled = Some False, studentEditCodeEnabled = Some False,
     completed = False\<rparr>], docs = [(''r1'', [])], store = [\<lparr>id_d = ''r1'',
     teacher_d = ''T'', students_d = [], studentCursorEnabled_d = None,
     studentSelectionEnabled_d = None, studentEditCodeEnabled_d = None,
     completed_d = False, language_d = Some ''js'', taskId_d = None\<rparr>]\<rparr>"
  by code_simp

lemma leftAndBack_eq:
  "leftAndBack =
    \<lparr>activeRooms = [\<lparr>rid = ''r1'', members = [\<lparr>clientId = ''c0'',
     telegramId = ''T'', username = None, online = True, lastCursorPosition = None,
     lastSelection = None, userColor = Some ''#85C1E9'', lastActivity = Some 1\<rparr>,
     \<lparr>clientId = ''c1'', telegramId = ''S'', username = None, online = False,
     lastCursorPosition = Some (3, 4), lastSelection = None,
     userColor = Some ''#BB8FCE'', lastActivity = Some 3\<rparr>], teacher = ''T'',
     studentCursorEnabled = Some True, studentSelectionEnabled = Some True,
     studentEditCodeEnabled = Some True, completed = False\<rparr>], docs = [(''r1'',
     [])], store = [\<lparr>id_d = ''r1'', teacher_d = ''T'', students_d = [''S''],
     studentCursorEnabled_d = None, studentSelectionEnabled_d = None,
     studentEditCodeEnabled_d = None, completed_d = False, language_d = Some ''js'',
     taskId_d = None\<rparr>]\<rparr>"
  by code_simp

lemma selected_eq:
  "selected =
    \<lparr>activeRooms = [\<lparr>rid = ''r1'', members = [\<lparr>clientId = ''c1'',
     telegramId = ''S'', username = None, online = True, lastCursorPosition = None,
     lastSelection = Some \<lparr>line = Some 3, column = Some 5, selectionStart = None,
     selectionEnd = None, selectedText = None\<rparr>, userColor = Some ''#BB8FCE'',
     lastActivity = Some 2\<rparr>], teacher = ''T'', studentCursorEnabled = Some True,
     studentSelectionEnabled = Some True, studentEditCodeEnabled = Some True,
     completed = False\<rparr>], docs = [(''r1'', [])], store = [\<lparr>id_d = ''r1'',
     teacher_d = ''T'', students_d = [''S''], studentCursorEnabled_d = None,
     studentSelectionEnabled_d = None, studentEditCodeEnabled_d = None,
     completed_d = False, language_d = Some ''js'', taskId_d = None\<rparr>]\<rparr>"
  by code_simp

lemma twoStudents_eq:
  "twoStudents =
    \<lparr>activeRooms = [\<lparr>rid = ''r1'', members = [\<lparr>clientId = ''c1'',
     telegramId = ''S1'', username = None, online = True, lastCursorPosition = None,
     lastSelection = None, userColor = Some ''#F1948A'', lastActivity = Some 1\<rparr>,
     \<lparr>clientId = ''c2'', telegramId = ''S2'', username = None, online = True,
     lastCursorPosition = None, lastSelection = None, userColor = Some ''#85929E'',
     lastActivity = Some 2\<rparr>], teacher = ''T'', studentCursorEnabled = Some True,
     studentSelectionEnabled = Some True, studentEditCodeEnabled = Some True,
     completed = False\<rparr>], docs = [(''r1'', [])], store = [\<lparr>id_d = ''r1'',
     teacher_d = ''T'', students_d = [''S1'', ''S2''], studentCursorEnabled_d = None,
     studentSelectionEnabled_d = None, studentEditCodeEnabled_d = None,
     completed_d = False, language_d = Some ''js'', taskId_d = None\<rparr>]\<rparr>"
  by code_simp

lemma oneSocketTwoRooms_eq:
  "oneSocketTwoRooms =
    \<lparr>activeRooms = [\<lparr>rid = ''r1'', members = [\<lparr>clientId = ''c1'',
     telegramId = ''S'', username = None, online = True, lastCursorPosition = None,
     lastSelection = None, userColor = Some ''#BB8FCE'', lastActivity = Some 1\<rparr>],
     teacher = ''T'', studentCursorEnabled = Some True,
     studentSelectionEnabled = Some True, studentEditCodeEnabled = Some True,
     completed = False\<rparr>, \<lparr>rid = ''r2'',
     members = [\<lparr>clientId = ''c1'', telegramId = ''S'', username = None,
     online = True, lastCursorPosition = None, lastSelection = None,
     userColor = Some ''#BB8FCE'', lastActivity = Some 2\<rparr>], teacher = ''T'',
     studentCursorEnabled = Some True, studentSelectionEnabled = Some True,
     studentEditCodeEnabled = Some True, completed = False\<rparr>], docs = [(''r1'',
     []), (''r2'', [])], store = [\<lparr>id_d = ''r1'', teacher_d = ''T'',
     students_d = [''S''], studentCursorEnabled_d = None,
     studentSelectionEnabled_d = None, studentEditCodeEnabled_d = None,
     completed_d = False, language_d = Some ''js'', taskId_d = None\<rparr>,
     \<lparr>id_d = ''r2'', teacher_d = ''T'', students_d = [''S''],
     studentCursorEnabled_d = None, studentSelectionEnabled_d = None,
     studentEditCodeEnabled_d = None, completed_d = False, language_d = Some ''js'',
     taskId_d = None\<rparr>]\<rparr>"
  by code_simp

lemmas payload_defs = joinAs_def cursorAt_def pointAt_def editOf_def onlyCursorToggle_def renameOf_def
  editAndSelectionOff_def onlyCursorNull_def joinNamed_def

section \<open>The claims\<close>

text \<open>
  C1. On an active room whose \<open>completed\<close> flag is true, a cursor or edit-member event, and a
  selection or code-edit event whose sender is not the teacher, emit nothing and leave
  the state as it was. An edit-room or close-session event on a room whose durable
  \<open>completed\<close> flag is true leaves the state as it was and sends nothing to the room.
\<close>

theorem completed_room_gated_handlers:
  "(\<forall>ar. find (\<lambda>room. rid room = roomId_c cd) (activeRooms s) = Some ar \<and> completed ar \<longrightarrow>
       handleCursor now client cd s = (s, [], Returned)) \<and>
   (\<forall>ar. find (\<lambda>room. rid room = roomId_j md) (activeRooms s) = Some ar \<and> completed ar \<longrightarrow>
       handleEditMember client md s = (s, [], Returned)) \<and>
   (\<forall>ar. find (\<lambda>room. rid room = roomId_s sd) (activeRooms s) = Some ar \<and> completed ar \<and>
         telegramId_s sd \<noteq> teacher ar \<longrightarrow>
       handleSelection now client sd s = (s, [], Returned)) \<and>
   (\<forall>ar. find (\<lambda>room. rid room = roomId_u ud) (activeRooms s) = Some ar \<and> completed ar \<and>
         telegramId_u ud \<noteq> teacher ar \<longrightarrow>
       handleCodeEdit eng now client ud s = (s, [], Returned)) \<and>
   (\<forall>room. getRoom (store s) (roomId_e ed) = Some room \<and> completed_d room \<longrightarrow>
       fst (handleEditRoom client ed s) = s \<and>
       roomWide (fst (snd (handleEditRoom client ed s))) = []) \<and>
   (\<forall>room. getRoom (store s) (roomId_j jd) = Some room \<and> completed_d room \<longrightarrow>
       fst (handleCloseSession client jd s) = s \<and>
       roomWide (fst (snd (handleCloseSession client jd s))) = [])"
proof (intro conjI allI impI)
  fix ar assume "find (\<lambda>room. rid room = roomId_c cd) (activeRooms s) = Some ar \<and> completed ar"
  then show "handleCursor now client cd s = (s, [], Returned)"
    by (simp add: handleCursor_def)
next
  fix ar assume "find (\<lambda>room. rid room = roomId_j md) (activeRooms s) = Some ar \<and> completed ar"
  then show "handleEditMember client md s = (s, [], Returned)"
    by (simp add: handleEditMember_def)
next
  fix ar assume "find (\<lambda>room. rid room = roomId_s sd) (activeRooms s) = Some ar \<and> completed ar \<and>
         telegramId_s sd \<noteq> teacher ar"
  then show "handleSelection now client sd s = (s, [], Returned)"
    by (auto simp: handleSelection_def)
next
  fix ar assume "find (\<lambda>room. rid room = roomId_u ud) (activeRooms s) = Some ar \<and> completed ar \<and>
         telegramId_u ud \<noteq> teacher ar"
  then show "handleCodeEdit eng now client ud s = (s, [], Returned)"
    by (auto simp: handleCodeEdit_def)
next
  fix room assume a: "getRoom (store s) (roomId_e ed) = Some room \<and> completed_d room"
  then show "fst (handleEditRoom client ed s) = s"
    by (simp add: handleEditRoom_def)
  from a show "roomWide (fst (snd (handleEditRoom client ed s))) = []"
    by (simp add: handleEditRoom_def roomWide_def)
next
  fix room assume a: "getRoom (store s) (roomId_j jd) = Some room \<and> completed_d room"
  then show "fst (handleCloseSession client jd s) = s"
    by (simp add: handleCloseSession_def)
  from a show "roomWide (fst (snd (handleCloseSession client jd s))) = []"
    by (simp add: handleCloseSession_def roomWide_def)
qed

text \<open>
  The handlers of C1 at the state \<open>reopened\<close>, where the room \<open>r1\<close> is active again after
  its session was closed.
\<close>

theorem completed_room_gated_handlers_witness:
  "map_option completed (find (\<lambda>room. rid room = ''r1'') (activeRooms reopened)) = Some True \<and>
   handleCursor 4 ''c1'' (cursorAt ''S'' ''r1'' [1, 2]) reopened = (reopened, [], Returned) \<and>
   handleEditMember ''c1'' (renameOf ''S'' ''r1'' ''S'' ''Sam'') reopened =
     (reopened, [], Returned) \<and>
   handleSelection 4 ''c1'' (pointAt ''S'' ''r1'' 3 5) reopened = (reopened, [], Returned) \<and>
   handleCodeEdit logEngine 4 ''c1'' (editOf ''S'' ''r1'' [1]) reopened =
     (reopened, [], Returned) \<and>
   map_option completed_d (getRoom (store reopened) ''r1'') = Some True \<and>
   fst (handleEditRoom ''c1'' (onlyCursorToggle ''T'' ''r1'' False) reopened) = reopened \<and>
   roomWide (fst (snd (handleEditRoom ''c1'' (onlyCursorToggle ''T'' ''r1'' False) reopened))) = [] \<and>
   fst (handleCloseSession ''c1'' (joinAs ''T'' ''r1'') reopened) = reopened \<and>
   roomWide (fst (snd (handleCloseSession ''c1'' (joinAs ''T'' ''r1'') reopened))) = []"
proof -
  obtain ar where ar: "find (\<lambda>room. rid room = ''r1'') (activeRooms reopened) = Some ar"
    "completed ar" "teacher ar = ''T''"
    by (simp add: reopened_eq)
  obtain room where room: "getRoom (store reopened) ''r1'' = Some room" "completed_d room"
    by (simp add: reopened_eq getRoom_def)
  show ?thesis
    using completed_room_gated_handlers
      [where s = reopened and cd = "cursorAt ''S'' ''r1'' [1, 2]" and now = 4
         and client = "''c1''" and md = "renameOf ''S'' ''r1'' ''S'' ''Sam''"
         and sd = "pointAt ''S'' ''r1'' 3 5" and ud = "editOf ''S'' ''r1'' [1]"
         and eng = logEngine and ed = "onlyCursorToggle ''T'' ''r1'' False"
         and jd = "joinAs ''T'' ''r1''"]
      ar room
    by (simp add: payload_defs)
qed

text \<open>
  The flag does not stop every broadcast. At \<open>reopened\<close> the active room \<open>r1\<close> is
  completed, and still a join sends the roster to the room, a disconnect sends its three
  events to the room, and a code-edit of the teacher is relayed to the room.
\<close>

theorem completed_room_broadcast_counterexample:
  "map_option completed (find (\<lambda>r. rid r = ''r1'') (activeRooms reopened)) = Some True \<and>
   map_option teacher (find (\<lambda>r. rid r = ''r1'') (activeRooms reopened)) = Some ''T'' \<and>
   roomWide (fst (snd (handleJoinRoom logEngine 4 ''c0'' (joinAs ''T'' ''r1'') reopened))) =
     [(ToRoom ''r1'',
       MembersUpdated
         [\<lparr>telegramId_v = ''S'', username_v = None, isYourself_v = Some False,
           online_v = True, userColor_v = Some ''#BB8FCE'', lastActivity_v = Some 3\<rparr>,
          \<lparr>telegramId_v = ''T'', username_v = None, isYourself_v = Some True,
           online_v = True, userColor_v = Some ''#85C1E9'', lastActivity_v = Some 4\<rparr>]
         Join ''T'')] \<and>
   map fst (roomWide (fst (snd (handleDisconnect ''c1'' reopened)))) =
     [ToRoom ''r1'', ToRoom ''r1'', ToRoom ''r1''] \<and>
   roomWide (fst (snd (handleCodeEdit logEngine 4 ''c0'' (editOf ''T'' ''r1'' [0, 0]) reopened))) =
     [(ToRoomExcept ''r1'' ''c0'', CodeEditAction [0, 0] (Some ''T'') None None)]"
  by (simp only: reopened_eq) code_simp

text \<open>
  C2. A cursor event for a room that has no active room is answered with the room-not-found
  error, sent to the sender alone, and changes nothing. A cursor event for an active room
  that is completed, or whose student-cursor toggle is off, emits nothing and changes
  nothing.
\<close>

theorem cursor_gate_outcomes:
  "(find (\<lambda>room. rid room = roomId_c data) (activeRooms s) = None \<longrightarrow>
      handleCursor now client data s =
        (s, [(ToClient client, ErrorEv RoomNotFoundMsg)], Returned)) \<and>
   (\<forall>activeRoom.
      find (\<lambda>room. rid room = roomId_c data) (activeRooms s) = Some activeRoom \<and>
      (completed activeRoom \<or> \<not> truthyBool (studentCursorEnabled activeRoom)) \<longrightarrow>
      handleCursor now client data s = (s, [], Returned))"
  by (auto simp: handleCursor_def)

text \<open>
  Both cases of C2: the empty registry, and the state \<open>cursorOff\<close> where the teacher has
  switched the cursor toggle off.
\<close>

theorem cursor_gate_outcomes_witness:
  "find (\<lambda>room. rid room = ''r1'') (activeRooms (initial [roomOne] :: bytes list state)) = None \<and>
   handleCursor 1 ''c1'' (cursorAt ''S'' ''r1'' [3, 4]) (initial [roomOne] :: bytes list state) =
     (initial [roomOne], [(ToClient ''c1'', ErrorEv RoomNotFoundMsg)], Returned) \<and>
   map_option studentCursorEnabled (find (\<lambda>room. rid room = ''r1'') (activeRooms cursorOff)) =
     Some (Some False) \<and>
   handleCursor 3 ''c0'' (cursorAt ''T'' ''r1'' [3, 4]) cursorOff = (cursorOff, [], Returned)"
proof -
  have none: "find (\<lambda>room. rid room = ''r1'') (activeRooms (initial [roomOne] :: bytes list state)) = None"
    by (simp add: initial_def)
  obtain ar where ar: "find (\<lambda>room. rid room = ''r1'') (activeRooms cursorOff) = Some ar"
    "studentCursorEnabled ar = Some False"
    by (simp add: cursorOff_eq)
  show ?thesis
    using cursor_gate_outcomes [of "cursorAt ''S'' ''r1'' [3, 4]" "initial [roomOne] :: bytes list state" 1 "''c1''"]
          cursor_gate_outcomes [of "cursorAt ''T'' ''r1'' [3, 4]" cursorOff 3 "''c0''"]
          none ar
    by (simp add: payload_defs truthyBool_def)
qed

text \<open>
  A cursor event for a room that is not active is not silent: the sender gets an error.
\<close>

theorem cursor_inactive_room_counterexample:
  "find (\<lambda>room. rid room = ''r1'') (activeRooms (initial [roomOne] :: bytes list state)) = None \<and>
   fst (snd (handleCursor 1 ''c1'' (cursorAt ''S'' ''r1'' [3, 4])
               (initial [roomOne] :: bytes list state))) =
     [(ToClient ''c1'', ErrorEv RoomNotFoundMsg)]"
  by code_simp

text \<open>
  C3. In a state the gateway reaches, a join of a room that the durable table has is
  answered, to the joining connection alone, with a \<open>joined\<close> event that carries the last
  cursor of every online member that has one and the last selection of every online
  member that has one, the joining member (online by then) among them; the color of the
  joiner's identity; whether the joiner is the room's teacher; the three toggles of the
  active room; and the language and the completed flag of the durable room.
\<close>

theorem joined_reply_contents:
  assumes "s = run eng reqs (initial st)"
    and "getRoom (store s) (roomId_j data) = Some room"
  shows "\<exists>ar fullState.
    find (\<lambda>r. rid r = roomId_j data)
      (activeRooms (fst (handleJoinRoom eng now client data s))) = Some ar \<and>
    (\<exists>m\<in>set (members ar). telegramId m = telegramId_j data \<and> online m \<and> clientId m = client) \<and>
    snd (handleJoinRoom eng now client data s) =
      ([(ToRoom (roomId_j data),
           MembersUpdated (map (memberView (Some (telegramId_j data))) (members ar)) Join
             (telegramId_j data)),
        (ToClient client,
           Joined
             \<lparr>telegramId_jd = telegramId_j data,
              currentCursors =
                map cursorEntry
                  (filter (\<lambda>m. lastCursorPosition m \<noteq> None \<and> online m) (members ar)),
              currentSelections =
                map (selectionEntry True)
                  (filter (\<lambda>m. lastSelection m \<noteq> None \<and> online m) (members ar)),
              userColor_jd = Some (generateUserColor (telegramId_j data)),
              isTeacher = (teacher_d room = telegramId_j data),
              roomPermissions =
                (studentCursorEnabled ar, studentSelectionEnabled ar,
                 studentEditCodeEnabled ar),
              language_jd = language_d room,
              completed_jd = completed_d room\<rparr>),
        (ToClient client, CodeEditAction fullState None None None),
        (ToClient client,
           SelectionState
             (map (selectionEntry True)
                (filter (\<lambda>m. lastSelection m \<noteq> None \<and> online m) (members ar)))
             (telegramId_j data))],
       Returned)"
proof -
  have ok: "registryOk (activeRooms s)"
    unfolding assms(1) by (rule reachable_registryOk)
  from join_result [OF assms(2) ok, of now client eng] obtain ar s1 where
    f: "find (\<lambda>r. rid r = roomId_j data) (activeRooms s1) = Some ar" and
    m: "members ar = upsertMember now client (telegramId_j data) (username_j data)
          (case find (\<lambda>r. rid r = roomId_j data) (activeRooms s) of
             None \<Rightarrow> [] | Some r \<Rightarrow> members r)" and
    r: "handleJoinRoom eng now client data s =
      (s1,
       [(ToRoom (roomId_j data),
           MembersUpdated (map (memberView (Some (telegramId_j data))) (members ar)) Join
             (telegramId_j data)),
        (ToClient client,
           Joined
             \<lparr>telegramId_jd = telegramId_j data,
              currentCursors =
                map cursorEntry
                  (filter (\<lambda>m. lastCursorPosition m \<noteq> None \<and> online m) (members ar)),
              currentSelections =
                map (selectionEntry True)
                  (filter (\<lambda>m. lastSelection m \<noteq> None \<and> online m) (members ar)),
              userColor_jd = Some (generateUserColor (telegramId_j data)),
              isTeacher = (teacher_d room = telegramId_j data),
              roomPermissions =
                (studentCursorEnabled ar, studentSelectionEnabled ar,
                 studentEditCodeEnabled ar),
              language_jd = language_d room,
              completed_jd = completed_d room\<rparr>),
        (ToClient client,
           CodeEditAction
             (encodeStateAsUpdate eng (snd (getOrCreateDoc eng (docs s) (roomId_j data))))
             None None None),
        (ToClient client,
           SelectionState
             (map (selectionEntry True)
                (filter (\<lambda>m. lastSelection m \<noteq> None \<and> online m) (members ar)))
             (telegramId_j data))],
       Returned)"
    by blast
  have j: "\<exists>m\<in>set (members ar). telegramId m = telegramId_j data \<and> online m \<and> clientId m = client"
    unfolding m by (rule upsert_joiner)
  show ?thesis
    apply (rule exI [of _ ar])
    apply (rule exI [of _ "encodeStateAsUpdate eng (snd (getOrCreateDoc eng (docs s) (roomId_j data)))"])
    using f j by (simp add: r)
qed

text \<open>
  C3 at the state \<open>leftAndBack\<close>: the student \<open>S\<close> joins again on a new connection.
\<close>

theorem joined_reply_contents_witness:
  "getRoom (store leftAndBack) (roomId_j (joinAs ''S'' ''r1'')) =
     Some (roomOne\<lparr>students_d := [''S'']\<rparr>) \<and>
   (\<exists>ar fullState.
      find (\<lambda>r. rid r = ''r1'')
        (activeRooms (fst (handleJoinRoom logEngine 5 ''c2'' (joinAs ''S'' ''r1'') leftAndBack))) =
        Some ar \<and>
      snd (handleJoinRoom logEngine 5 ''c2'' (joinAs ''S'' ''r1'') leftAndBack) =
        ([(ToRoom ''r1'',
             MembersUpdated (map (memberView (Some ''S'')) (members ar)) Join ''S''),
          (ToClient ''c2'',
             Joined
               \<lparr>telegramId_jd = ''S'',
                currentCursors =
                  map cursorEntry
                    (filter (\<lambda>m. lastCursorPosition m \<noteq> None \<and> online m) (members ar)),
                currentSelections =
                  map (selectionEntry True)
                    (filter (\<lambda>m. lastSelection m \<noteq> None \<and> online m) (members ar)),
                userColor_jd = Some (generateUserColor ''S''),
                isTeacher = False,
                roomPermissions =
                  (studentCursorEnabled ar, studentSelectionEnabled ar,
                   studentEditCodeEnabled ar),
                language_jd = Some ''js'',
                completed_jd = False\<rparr>),
          (ToClient ''c2'', CodeEditAction fullState None None None),
          (ToClient ''c2'',
             SelectionState
               (map (selectionEntry True)
                  (filter (\<lambda>m. lastSelection m \<noteq> None \<and> online m) (members ar)))
               ''S'')],
         Returned))"
proof -
  have g: "getRoom (store leftAndBack) (roomId_j (joinAs ''S'' ''r1'')) =
     Some (roomOne\<lparr>students_d := [''S'']\<rparr>)"
    by (simp add: leftAndBack_eq getRoom_def joinAs_def roomOne_def)
  from joined_reply_contents [OF leftAndBack_def g, of 5 "''c2''"] g
  show ?thesis by (simp add: joinAs_def roomOne_def) blast
qed

text \<open>
  The joiner's own retained cursor and selection are not left out. At \<open>leftAndBack\<close> the
  student has left after moving the cursor, and the reply to the new join carries that
  cursor; at \<open>selected\<close> the student joins on a second connection, and the reply carries the
  student's own selection.
\<close>

theorem joined_own_cursor_counterexample:
  "presence (activeRooms leftAndBack) =
     [(''r1'', [(''T'', ''c0'', True), (''S'', ''c1'', False)])] \<and>
   fst (snd (handleJoinRoom logEngine 5 ''c2'' (joinAs ''S'' ''r1'') leftAndBack)) ! 1 =
     (ToClient ''c2'',
      Joined
        \<lparr>telegramId_jd = ''S'',
         currentCursors =
           [\<lparr>telegramId_ce = ''S'', position_ce = Some (3, 4),
             userColor_ce = Some ''#BB8FCE'', username_ce = None\<rparr>],
         currentSelections = [], userColor_jd = Some ''#BB8FCE'', isTeacher = False,
         roomPermissions = (Some True, Some True, Some True),
         language_jd = Some ''js'', completed_jd = False\<rparr>) \<and>
   fst (snd (handleJoinRoom logEngine 3 ''c2'' (joinAs ''S'' ''r1'') selected)) ! 1 =
     (ToClient ''c2'',
      Joined
        \<lparr>telegramId_jd = ''S'', currentCursors = [],
         currentSelections =
           [\<lparr>line = Some 3, column = Some 5, selectionStart = None, selectionEnd = None,
             selectedText = None, telegramId_se = ''S'', userColor_se = Some ''#BB8FCE'',
             username_se = None\<rparr>],
         userColor_jd = Some ''#BB8FCE'', isTeacher = False,
         roomPermissions = (Some True, Some True, Some True),
         language_jd = Some ''js'', completed_jd = False\<rparr>)"
  by (simp only: leftAndBack_eq selected_eq) code_simp

text \<open>
  C4. The \<open>selection-state\<close> payload at the state \<open>twoStudents\<close>, when \<open>S1\<close> selects
  the point of line 3 and column 5: \<open>S1\<close>'s entry has the two point fields and no range
  field, and there is an entry too for \<open>S2\<close>, who is online and has no last selection.
\<close>

theorem selection_state_lists_member_without_selection:
  "presence (activeRooms twoStudents) =
     [(''r1'', [(''S1'', ''c1'', True), (''S2'', ''c2'', True)])] \<and>
   snd (handleSelection 3 ''c1'' (pointAt ''S1'' ''r1'' 3 5) twoStudents) =
     ([(ToRoomExcept ''r1'' ''c1'',
        SelectionState
          [\<lparr>line = Some 3, column = Some 5, selectionStart = None, selectionEnd = None,
            selectedText = None, telegramId_se = ''S1'', userColor_se = Some ''#F1948A'',
            username_se = None\<rparr>,
           \<lparr>line = None, column = None, selectionStart = None, selectionEnd = None,
            selectedText = None, telegramId_se = ''S2'', userColor_se = Some ''#85929E'',
            username_se = None\<rparr>]
          ''S1'')],
      Returned) \<and>
   map (\<lambda>r. map (\<lambda>m. (telegramId m, lastSelection m)) (members r))
     (activeRooms (fst (handleSelection 3 ''c1'' (pointAt ''S1'' ''r1'' 3 5) twoStudents))) =
     [[(''S1'', Some \<lparr>line = Some 3, column = Some 5, selectionStart = None,
                      selectionEnd = None, selectedText = None\<rparr>),
       (''S2'', None)]]"
  by (simp only: twoStudents_eq) code_simp

text \<open>
  C5. When a code-edit event passes the permission checks and the engine rejects the
  update, the exception leaves \<open>handleCodeEdit\<close>, and the handler has emitted nothing: no
  error to the sender and no \<open>code-edit-action\<close> to the room.
\<close>

theorem code_edit_rejected_update_leaves_handler:
  assumes "find (\<lambda>room. rid room = roomId_u data) (activeRooms s) = Some activeRoom"
    and "\<not> (completed activeRoom \<and> teacher activeRoom \<noteq> telegramId_u data)"
    and "truthyBool (studentEditCodeEnabled activeRoom) \<or> telegramId_u data = teacher activeRoom"
    and "telegramId_u data \<noteq> []"
    and "applyUpdate eng (snd (getOrCreateDoc eng (docs s) (roomId_u data))) (update_u data) =
           Rejected doc1"
  shows "snd (handleCodeEdit eng now client data s) = ([], Threw EngineRejected)"
  using assms by (auto simp: handleCodeEdit_def Let_def)

text \<open>
  C5 at the state \<open>oneStudent\<close>, with the empty update that the concrete engine rejects.
\<close>

theorem code_edit_rejected_update_leaves_handler_witness:
  "map_option (\<lambda>r. (completed r, studentEditCodeEnabled r))
     (find (\<lambda>room. rid room = roomId_u (editOf ''S'' ''r1'' [])) (activeRooms oneStudent)) =
     Some (False, Some True) \<and>
   telegramId_u (editOf ''S'' ''r1'' []) = ''S'' \<and>
   applyUpdate logEngine (snd (getOrCreateDoc logEngine (docs oneStudent) ''r1'')) [] =
     Rejected [] \<and>
   snd (handleCodeEdit logEngine 2 ''c1'' (editOf ''S'' ''r1'' []) oneStudent) =
     ([], Threw EngineRejected)"
proof -
  obtain ar where ar:
    "find (\<lambda>room. rid room = roomId_u (editOf ''S'' ''r1'' [])) (activeRooms oneStudent) = Some ar"
    "\<not> completed ar" "studentEditCodeEnabled ar = Some True"
    by (simp add: oneStudent_eq editOf_def)
  have rej: "applyUpdate logEngine
               (snd (getOrCreateDoc logEngine (docs oneStudent)
                  (roomId_u (editOf ''S'' ''r1'' [])))) (update_u (editOf ''S'' ''r1'' [])) =
             Rejected []"
    by (simp add: oneStudent_eq getOrCreateDoc_def logEngine_def editOf_def)
  have "snd (handleCodeEdit logEngine 2 ''c1'' (editOf ''S'' ''r1'' []) oneStudent) =
     ([], Threw EngineRejected)"
    by (rule code_edit_rejected_update_leaves_handler [OF ar(1) _ _ _ rej])
       (simp_all add: ar editOf_def truthyBool_def)
  with ar rej show ?thesis by (simp add: editOf_def)
qed

text \<open>
  The handler does not turn the rejection into an error event: it throws, with no event
  sent.
\<close>

theorem code_edit_rejected_counterexample:
  "presence (activeRooms oneStudent) = [(''r1'', [(''S'', ''c1'', True)])] \<and>
   applyUpdate logEngine [] [] = Rejected [] \<and>
   snd (handleCodeEdit logEngine 2 ''c1'' (editOf ''S'' ''r1'' []) oneStudent) =
     ([], Threw EngineRejected)"
  by (simp only: oneStudent_eq) code_simp

text \<open>
  C6. In a state the gateway reaches, an edit-room event of the teacher of a room that is
  not completed leaves every toggle that the payload leaves out as it was on the active
  room, whatever the durable row and the defaults say; it sets a toggle that the payload
  gives to the given value, and to false when the payload gives \<^verbatim>\<open>null\<close>. The members,
  the teacher and the completed flag of the active room stay as they were.
\<close>

theorem edit_room_keeps_unspecified_toggles:
  assumes "s = run eng reqs (initial st)"
    and "getRoom (store s) (roomId_e data) = Some room"
    and "teacher_d room = telegramId_e data" and "\<not> completed_d room"
    and "find (\<lambda>r. rid r = roomId_e data) (activeRooms s) = Some ar"
  shows "\<exists>ar1. find (\<lambda>r. rid r = roomId_e data)
                  (activeRooms (fst (handleEditRoom client data s))) = Some ar1 \<and>
          (studentCursorEnabled_e data = Undefined \<longrightarrow>
             studentCursorEnabled ar1 = studentCursorEnabled ar) \<and>
          (studentEditCodeEnabled_e data = Undefined \<longrightarrow>
             studentEditCodeEnabled ar1 = studentEditCodeEnabled ar) \<and>
          (studentSelectionEnabled_e data = Undefined \<longrightarrow>
             studentSelectionEnabled ar1 = studentSelectionEnabled ar) \<and>
          (\<forall>b. studentCursorEnabled_e data = Given b \<longrightarrow> studentCursorEnabled ar1 = Some b) \<and>
          (\<forall>b. studentEditCodeEnabled_e data = Given b \<longrightarrow>
             studentEditCodeEnabled ar1 = Some b) \<and>
          (\<forall>b. studentSelectionEnabled_e data = Given b \<longrightarrow>
             studentSelectionEnabled ar1 = Some b) \<and>
          (studentCursorEnabled_e data = Null \<longrightarrow> studentCursorEnabled ar1 = Some False) \<and>
          (studentEditCodeEnabled_e data = Null \<longrightarrow>
             studentEditCodeEnabled ar1 = Some False) \<and>
          (studentSelectionEnabled_e data = Null \<longrightarrow>
             studentSelectionEnabled ar1 = Some False) \<and>
          rid ar1 = rid ar \<and> members ar1 = members ar \<and> teacher ar1 = teacher ar \<and>
          completed ar1 = completed ar"
proof -
  have ok: "registryOk (activeRooms s)"
    unfolding assms(1) by (rule reachable_registryOk)
  have i: "id_d room = roomId_e data" by (rule getRoom_id [OF assms(2)])
  obtain st1 u where e: "editRoom (store s) (id_d room) data = Inr (st1, u)"
    using editRoom_total [OF assms(2,3)] i by auto
  have u: "id_d u = roomId_e data" using editRoom_id [OF e] i by simp
  let ?g = "\<lambda>item. if rid item = roomId_e data then mergeToggles data (Some ar) room item else item"
  have rooms: "activeRooms (fst (handleEditRoom client data s)) = map ?g (activeRooms s)"
    using assms(2-5) e i u by (simp add: handleEditRoom_def)
  have "find (\<lambda>r. rid r = roomId_e data) (map ?g (activeRooms s)) =
        map_option ?g (find (\<lambda>r. rid r = roomId_e data) (activeRooms s))"
    by (rule find_map_keeping) (simp add: rid_mergeToggles)
  then have f: "find (\<lambda>r. rid r = roomId_e data) (activeRooms (fst (handleEditRoom client data s))) =
        Some (mergeToggles data (Some ar) room ar)"
    using rooms assms(5) find_SomeD [OF assms(5)] by simp
  have "roomOk ar" by (rule found_roomOk [OF ok assms(5)])
  then have "studentCursorEnabled ar \<noteq> None" "studentEditCodeEnabled ar \<noteq> None"
    "studentSelectionEnabled ar \<noteq> None"
    by (simp_all add: roomOk_def)
  then show ?thesis
    unfolding f by (auto simp: mergeToggles_def mergeToggle_def nullish_def)
qed

text \<open>
  C6 at the state \<open>studentsMuted\<close>: the teacher has switched editing and selection off,
  and the durable row has since been written back with its toggles unset. Only the cursor
  toggle is given; editing and selection stay off, as on the active room before. With
  \<^verbatim>\<open>null\<close> for the cursor toggle the result is the same.
\<close>

theorem edit_room_keeps_unspecified_toggles_witness:
  "getRoom (store studentsMuted) ''r1'' = Some roomOne \<and>
   teacher_d roomOne = ''T'' \<and> completed_d roomOne = False \<and>
   (studentCursorEnabled_d roomOne, studentEditCodeEnabled_d roomOne,
    studentSelectionEnabled_d roomOne) = (None, None, None) \<and>
   map_option (\<lambda>r. (studentCursorEnabled r, studentEditCodeEnabled r, studentSelectionEnabled r))
     (find (\<lambda>r. rid r = ''r1'') (activeRooms studentsMuted)) =
     Some (Some True, Some False, Some False) \<and>
   map_option (\<lambda>r. (studentCursorEnabled r, studentEditCodeEnabled r, studentSelectionEnabled r))
     (find (\<lambda>r. rid r = ''r1'')
        (activeRooms
           (fst (handleEditRoom ''c0'' (onlyCursorToggle ''T'' ''r1'' False) studentsMuted)))) =
     Some (Some False, Some False, Some False) \<and>
   map_option (\<lambda>r. (studentCursorEnabled r, studentEditCodeEnabled r, studentSelectionEnabled r))
     (find (\<lambda>r. rid r = ''r1'')
        (activeRooms (fst (handleEditRoom ''c0'' (onlyCursorNull ''T'' ''r1'') studentsMuted)))) =
     Some (Some False, Some False, Some False)"
proof -
  have g: "getRoom (store studentsMuted) ''r1'' = Some roomOne"
    by (simp add: studentsMuted_eq getRoom_def roomOne_def)
  have t: "teacher_d roomOne = ''T''" and c: "\<not> completed_d roomOne"
    and d: "(studentCursorEnabled_d roomOne, studentEditCodeEnabled_d roomOne,
             studentSelectionEnabled_d roomOne) = (None, None, None)"
    by (simp_all add: roomOne_def)
  obtain ar where ar:
    "find (\<lambda>r. rid r = ''r1'') (activeRooms studentsMuted) = Some ar"
    "studentCursorEnabled ar = Some True" "studentEditCodeEnabled ar = Some False"
    "studentSelectionEnabled ar = Some False"
    by (simp add: studentsMuted_eq)
  have p: "roomId_e (onlyCursorToggle ''T'' ''r1'' False) = ''r1''"
    "telegramId_e (onlyCursorToggle ''T'' ''r1'' False) = ''T''"
    "roomId_e (onlyCursorNull ''T'' ''r1'') = ''r1''"
    "telegramId_e (onlyCursorNull ''T'' ''r1'') = ''T''"
    by (simp_all add: onlyCursorToggle_def onlyCursorNull_def)
  have given: "\<exists>ar1. find (\<lambda>r. rid r = ''r1'')
        (activeRooms (fst (handleEditRoom ''c0'' (onlyCursorToggle ''T'' ''r1'' False) studentsMuted))) =
        Some ar1 \<and> studentCursorEnabled ar1 = Some False \<and>
        studentEditCodeEnabled ar1 = Some False \<and> studentSelectionEnabled ar1 = Some False"
    using edit_room_keeps_unspecified_toggles
            [OF studentsMuted_def, of "onlyCursorToggle ''T'' ''r1'' False" roomOne ar "''c0''"]
          g t c ar
    by (simp add: p) (auto simp: onlyCursorToggle_def)
  have null: "\<exists>ar1. find (\<lambda>r. rid r = ''r1'')
        (activeRooms (fst (handleEditRoom ''c0'' (onlyCursorNull ''T'' ''r1'') studentsMuted))) =
        Some ar1 \<and> studentCursorEnabled ar1 = Some False \<and>
        studentEditCodeEnabled ar1 = Some False \<and> studentSelectionEnabled ar1 = Some False"
    using edit_room_keeps_unspecified_toggles
            [OF studentsMuted_def, of "onlyCursorNull ''T'' ''r1''" roomOne ar "''c0''"]
          g t c ar
    by (simp add: p) (auto simp: onlyCursorNull_def)
  from given null g t c d ar show ?thesis by auto
qed

text \<open>
  C7. A cursor event whose position has not exactly two values changes nothing and sends
  nothing to the room; when the room is active, not completed and has the student-cursor
  toggle on, the sender alone gets the two-values error.
\<close>

theorem cursor_wrong_length:
  assumes "length (position data) \<noteq> 2"
  shows "fst (handleCursor now client data s) = s \<and>
         roomWide (fst (snd (handleCursor now client data s))) = [] \<and>
         (\<forall>activeRoom.
            find (\<lambda>room. rid room = roomId_c data) (activeRooms s) = Some activeRoom \<and>
            \<not> completed activeRoom \<and> truthyBool (studentCursorEnabled activeRoom) \<longrightarrow>
            handleCursor now client data s =
              (s, [(ToClient client, ErrorEv CursorTwoValuesMsg)], Returned))"
proof (cases "find (\<lambda>room. rid room = roomId_c data) (activeRooms s)")
  case None
  then show ?thesis by (simp add: handleCursor_def roomWide_def)
next
  case (Some ar)
  then show ?thesis using assms by (simp add: handleCursor_def roomWide_def)
qed

text \<open>
  C7 at the state \<open>oneStudent\<close>, with a position of one value.
\<close>

theorem cursor_wrong_length_witness:
  "length (position (cursorAt ''S'' ''r1'' [1])) \<noteq> 2 \<and>
   map_option (\<lambda>r. (completed r, studentCursorEnabled r))
     (find (\<lambda>room. rid room = ''r1'') (activeRooms oneStudent)) = Some (False, Some True) \<and>
   handleCursor 2 ''c1'' (cursorAt ''S'' ''r1'' [1]) oneStudent =
     (oneStudent, [(ToClient ''c1'', ErrorEv CursorTwoValuesMsg)], Returned) \<and>
   roomWide (fst (snd (handleCursor 2 ''c1'' (cursorAt ''S'' ''r1'' [1]) oneStudent))) = []"
proof -
  have l: "length (position (cursorAt ''S'' ''r1'' [1])) \<noteq> 2" by (simp add: cursorAt_def)
  obtain ar where ar:
    "find (\<lambda>room. rid room = roomId_c (cursorAt ''S'' ''r1'' [1])) (activeRooms oneStudent) = Some ar"
    "\<not> completed ar" "studentCursorEnabled ar = Some True"
    by (simp add: oneStudent_eq cursorAt_def)
  from cursor_wrong_length [OF l, of 2 "''c1''" oneStudent] l ar
  show ?thesis by (simp add: cursorAt_def truthyBool_def roomWide_def)
qed

text \<open>
  The error is not sent for every such event: at \<open>cursorOff\<close> the toggle is off, and a
  position of one value is dropped in silence.
\<close>

theorem cursor_wrong_length_counterexample:
  "map_option studentCursorEnabled (find (\<lambda>r. rid r = ''r1'') (activeRooms cursorOff)) =
     Some (Some False) \<and>
   length (position (cursorAt ''T'' ''r1'' [1])) = 1 \<and>
   handleCursor 3 ''c0'' (cursorAt ''T'' ''r1'' [1]) cursorOff = (cursorOff, [], Returned)"
  by (simp only: cursorOff_eq) code_simp

text \<open>
  C8. In every state the gateway reaches, whatever the requests were, a room has at most
  one member of an identity, and the color of every member is \<open>generateUserColor\<close> of its
  identity. A join in such a state replies with that same color. When the identity
  already has a member in the room, the join changes that member where it stands: it is
  online, bound to the joining connection, its last activity is the time of the join and
  its display name is the one supplied, if one is; its color, cursor and selection and
  every other member stay as they were. When the identity has no member in the room, one
  is added at the end, with the color of the identity.
\<close>

theorem one_member_one_color:
  assumes "s = run eng reqs (initial st)"
  shows "(\<forall>room\<in>set (activeRooms s).
            (\<forall>tid. length (filter (\<lambda>m. telegramId m = tid) (members room)) \<le> 1) \<and>
            (\<forall>m\<in>set (members room). userColor m = Some (generateUserColor (telegramId m)))) \<and>
         (\<forall>t j. (t, Joined j) \<in> set (fst (snd (handleJoinRoom eng now client data s))) \<longrightarrow>
            userColor_jd j = Some (generateUserColor (telegramId_j data))) \<and>
         (\<forall>ar m. find (\<lambda>r. rid r = roomId_j data) (activeRooms s) = Some ar \<and>
                 find (\<lambda>m. telegramId m = telegramId_j data) (members ar) = Some m \<longrightarrow>
            (\<exists>ar1. find (\<lambda>r. rid r = roomId_j data)
                      (activeRooms (fst (handleJoinRoom eng now client data s))) = Some ar1 \<and>
                   map telegramId (members ar1) = map telegramId (members ar) \<and>
                   map userColor (members ar1) = map userColor (members ar))) \<and>
         (\<forall>room ar mpre m mpost.
            getRoom (store s) (roomId_j data) = Some room \<and>
            find (\<lambda>r. rid r = roomId_j data) (activeRooms s) = Some ar \<and>
            members ar = mpre @ m # mpost \<and> telegramId m = telegramId_j data \<longrightarrow>
            find (\<lambda>r. rid r = roomId_j data)
              (activeRooms (fst (handleJoinRoom eng now client data s))) =
            Some (ar\<lparr>members :=
                    mpre @
                    m\<lparr>online := True, clientId := client, lastActivity := Some now,
                      username := (if truthyStr (username_j data) then username_j data
                                   else username m)\<rparr> #
                    mpost\<rparr>)) \<and>
         (\<forall>room ar.
            getRoom (store s) (roomId_j data) = Some room \<and>
            find (\<lambda>r. rid r = roomId_j data) (activeRooms s) = Some ar \<and>
            find (\<lambda>m. telegramId m = telegramId_j data) (members ar) = None \<longrightarrow>
            find (\<lambda>r. rid r = roomId_j data)
              (activeRooms (fst (handleJoinRoom eng now client data s))) =
            Some (ar\<lparr>members :=
                    members ar @
                    [\<lparr>clientId = client, telegramId = telegramId_j data,
                      username = username_j data, online = True, lastCursorPosition = None,
                      lastSelection = None,
                      userColor = Some (generateUserColor (telegramId_j data)),
                      lastActivity = Some now\<rparr>]\<rparr>))"
proof (intro conjI ballI allI impI)
  have ok: "registryOk (activeRooms s)"
    unfolding assms by (rule reachable_registryOk)
  { fix room tid assume "room \<in> set (activeRooms s)"
    with ok have "distinct (map telegramId (members room))"
      by (simp add: registryOk_def roomOk_def membersOk_def)
    then show "length (filter (\<lambda>m. telegramId m = tid) (members room)) \<le> 1"
      by (rule distinct_filter_le1) }
  { fix room m assume "room \<in> set (activeRooms s)" "m \<in> set (members room)"
    with ok show "userColor m = Some (generateUserColor (telegramId m))"
      by (simp add: registryOk_def roomOk_def membersOk_def) }
  { fix t j assume j: "(t, Joined j) \<in> set (fst (snd (handleJoinRoom eng now client data s)))"
    show "userColor_jd j = Some (generateUserColor (telegramId_j data))"
    proof (cases "getRoom (store s) (roomId_j data)")
      case None
      with j show ?thesis by (simp add: handleJoinRoom_def)
    next
      case (Some room0)
      from join_result [OF Some ok, of now client eng] j show ?thesis by auto
    qed }
  { fix ar m
    assume a: "find (\<lambda>r. rid r = roomId_j data) (activeRooms s) = Some ar \<and>
               find (\<lambda>m. telegramId m = telegramId_j data) (members ar) = Some m"
    show "\<exists>ar1. find (\<lambda>r. rid r = roomId_j data)
                      (activeRooms (fst (handleJoinRoom eng now client data s))) = Some ar1 \<and>
                   map telegramId (members ar1) = map telegramId (members ar) \<and>
                   map userColor (members ar1) = map userColor (members ar)"
    proof (cases "getRoom (store s) (roomId_j data)")
      case None
      with a show ?thesis by (simp add: handleJoinRoom_def)
    next
      case (Some room0)
      have "upsertMember now client (telegramId_j data) (username_j data) (members ar) =
            modifyFirst (\<lambda>member. telegramId member = telegramId_j data)
              (rejoin now client (username_j data)) (members ar)"
        using a by (simp add: upsertMember_def)
      then show ?thesis
        using join_active_room [OF Some conjunct1 [OF a], of eng now client]
        by (simp add: modifyFirst_map rejoin_def)
    qed }
  { fix room ar mpre m mpost
    assume a: "getRoom (store s) (roomId_j data) = Some room \<and>
            find (\<lambda>r. rid r = roomId_j data) (activeRooms s) = Some ar \<and>
            members ar = mpre @ m # mpost \<and> telegramId m = telegramId_j data"
    then have g: "getRoom (store s) (roomId_j data) = Some room"
      and f: "find (\<lambda>r. rid r = roomId_j data) (activeRooms s) = Some ar"
      and ms: "members ar = mpre @ m # mpost" and tm: "telegramId m = telegramId_j data"
      by simp_all
    have "distinct (map telegramId (members ar))"
      using found_membersOk [OF ok f] by (simp add: membersOk_def)
    then have "telegramId m \<notin> telegramId ` set mpre" by (simp add: ms)
    then have pre: "\<forall>x\<in>set mpre. \<not> telegramId x = telegramId_j data"
      unfolding tm [symmetric] by (metis image_eqI)
    have fm: "find (\<lambda>member. telegramId member = telegramId_j data) (mpre @ m # mpost) = Some m"
      by (rule find_split [OF pre tm])
    have "upsertMember now client (telegramId_j data) (username_j data) (members ar) =
          mpre @ rejoin now client (username_j data) m # mpost"
      unfolding ms upsertMember_def by (simp add: fm modifyFirst_split [OF pre tm])
    then show "find (\<lambda>r. rid r = roomId_j data)
              (activeRooms (fst (handleJoinRoom eng now client data s))) =
            Some (ar\<lparr>members :=
                    mpre @
                    m\<lparr>online := True, clientId := client, lastActivity := Some now,
                      username := (if truthyStr (username_j data) then username_j data
                                   else username m)\<rparr> #
                    mpost\<rparr>)"
      using join_active_room [OF g f, of eng now client] by (simp add: rejoin_def) }
  { fix room ar
    assume a: "getRoom (store s) (roomId_j data) = Some room \<and>
            find (\<lambda>r. rid r = roomId_j data) (activeRooms s) = Some ar \<and>
            find (\<lambda>m. telegramId m = telegramId_j data) (members ar) = None"
    then show "find (\<lambda>r. rid r = roomId_j data)
              (activeRooms (fst (handleJoinRoom eng now client data s))) =
            Some (ar\<lparr>members :=
                    members ar @
                    [\<lparr>clientId = client, telegramId = telegramId_j data,
                      username = username_j data, online = True, lastCursorPosition = None,
                      lastSelection = None,
                      userColor = Some (generateUserColor (telegramId_j data)),
                      lastActivity = Some now\<rparr>]\<rparr>)"
      using join_active_room [of s data room ar eng now client]
      by (simp add: upsertMember_def newMember_def) }
qed

text \<open>
  C8 at the state \<open>leftAndBack\<close>, where the student \<open>S\<close> has joined, moved the cursor and
  left: \<open>S\<close> joins again at time 5 on the connection \<open>c2\<close>, under the name \<open>Sam\<close>. And at
  \<open>oneTeacher\<close>, where \<open>S\<close> joins for the first time.
\<close>

theorem one_member_one_color_witness:
  "map (\<lambda>room. length (filter (\<lambda>m. telegramId m = ''S'') (members room)))
     (activeRooms leftAndBack) = [1] \<and>
   map_option
     (\<lambda>r. map (\<lambda>m. (telegramId m, clientId m, online m, username m, lastCursorPosition m,
                     lastActivity m, userColor m)) (members r))
     (find (\<lambda>r. rid r = ''r1'') (activeRooms leftAndBack)) =
     Some [(''T'', ''c0'', True, None, None, Some 1, Some (generateUserColor ''T'')),
           (''S'', ''c1'', False, None, Some (3, 4), Some 3, Some (generateUserColor ''S''))] \<and>
   map_option
     (\<lambda>r. map (\<lambda>m. (telegramId m, clientId m, online m, username m, lastCursorPosition m,
                     lastActivity m, userColor m)) (members r))
     (find (\<lambda>r. rid r = ''r1'')
        (activeRooms
           (fst (handleJoinRoom logEngine 5 ''c2'' (joinNamed ''S'' ''r1'' ''Sam'') leftAndBack)))) =
     Some [(''T'', ''c0'', True, None, None, Some 1, Some (generateUserColor ''T'')),
           (''S'', ''c2'', True, Some ''Sam'', Some (3, 4), Some 5,
            Some (generateUserColor ''S''))] \<and>
   (\<exists>j. fst (snd (handleJoinRoom logEngine 5 ''c2'' (joinNamed ''S'' ''r1'' ''Sam'') leftAndBack)) ! 1 =
           (ToClient ''c2'', Joined j) \<and>
        userColor_jd j = Some ''#BB8FCE'') \<and>
   generateUserColor ''S'' = ''#BB8FCE'' \<and>
   map_option
     (\<lambda>r. map (\<lambda>m. (telegramId m, clientId m, online m, username m, lastCursorPosition m,
                     lastActivity m, userColor m)) (members r))
     (find (\<lambda>r. rid r = ''r1'')
        (activeRooms (fst (handleJoinRoom logEngine 2 ''c1'' (joinAs ''S'' ''r1'') oneTeacher)))) =
     Some [(''T'', ''c0'', True, None, None, Some 1, Some (generateUserColor ''T'')),
           (''S'', ''c1'', True, None, None, Some 2, Some ''#BB8FCE'')]"
proof -
  note main = one_member_one_color
    [OF leftAndBack_def, of 5 "''c2''" "joinNamed ''S'' ''r1'' ''Sam''"]
  note first = one_member_one_color
    [OF oneTeacher_def, of 2 "''c1''" "joinAs ''S'' ''r1''"]
  have p: "roomId_j (joinNamed ''S'' ''r1'' ''Sam'') = ''r1''"
    "telegramId_j (joinNamed ''S'' ''r1'' ''Sam'') = ''S''"
    "username_j (joinNamed ''S'' ''r1'' ''Sam'') = Some ''Sam''"
    "roomId_j (joinAs ''S'' ''r1'') = ''r1''" "telegramId_j (joinAs ''S'' ''r1'') = ''S''"
    "username_j (joinAs ''S'' ''r1'') = None"
    by (simp_all add: joinNamed_def joinAs_def)
  obtain room mt ms where rooms: "activeRooms leftAndBack = [room]" "rid room = ''r1''"
    and m: "members room = [mt] @ ms # []" "telegramId mt = ''T''" "telegramId ms = ''S''"
      "clientId mt = ''c0''" "clientId ms = ''c1''" "online mt" "\<not> online ms"
      "username mt = None" "username ms = None" "lastCursorPosition mt = None"
      "lastCursorPosition ms = Some (3, 4)" "lastActivity mt = Some 1"
      "lastActivity ms = Some 3"
    by (simp add: leftAndBack_eq)
  have col: "userColor mt = Some (generateUserColor ''T'')"
    "userColor ms = Some (generateUserColor ''S'')"
    using main rooms m by auto
  obtain d where g: "getRoom (store leftAndBack) ''r1'' = Some d"
    by (simp add: leftAndBack_eq getRoom_def)
  have f: "find (\<lambda>r. rid r = ''r1'') (activeRooms leftAndBack) = Some room"
    using rooms by simp
  have after: "find (\<lambda>r. rid r = ''r1'')
        (activeRooms
           (fst (handleJoinRoom logEngine 5 ''c2'' (joinNamed ''S'' ''r1'' ''Sam'') leftAndBack))) =
      Some (room\<lparr>members :=
              [mt] @ ms\<lparr>online := True, clientId := ''c2'', lastActivity := Some 5,
                        username := Some ''Sam''\<rparr> # []\<rparr>)"
    using main [THEN conjunct2, THEN conjunct2, THEN conjunct2, THEN conjunct1, rule_format,
                where room = d and ar = room and mpre = "[mt]" and m = ms and mpost = "[]"]
          g f m(1,3)
    by (simp add: p truthyStr_def)
  have "\<exists>roster j catchUp sel.
          fst (snd (handleJoinRoom logEngine 5 ''c2'' (joinNamed ''S'' ''r1'' ''Sam'') leftAndBack)) =
            [roster, (ToClient ''c2'', Joined j), catchUp, sel]"
    by (simp add: leftAndBack_eq handleJoinRoom_def getRoom_def joinNamed_def Let_def)
  then obtain roster j catchUp sel where
    evs: "fst (snd (handleJoinRoom logEngine 5 ''c2'' (joinNamed ''S'' ''r1'' ''Sam'') leftAndBack)) =
            [roster, (ToClient ''c2'', Joined j), catchUp, sel]"
    by blast
  then have "(ToClient ''c2'', Joined j) \<in>
      set (fst (snd (handleJoinRoom logEngine 5 ''c2'' (joinNamed ''S'' ''r1'' ''Sam'') leftAndBack)))"
    by simp
  with main have jc: "userColor_jd j = Some (generateUserColor ''S'')"
    by (auto simp: p)
  obtain room1 m1 where rooms1: "activeRooms oneTeacher = [room1]" "rid room1 = ''r1''"
    and m1: "members room1 = [m1]" "telegramId m1 = ''T''" "clientId m1 = ''c0''" "online m1"
      "username m1 = None" "lastCursorPosition m1 = None" "lastActivity m1 = Some 1"
    by (simp add: oneTeacher_eq)
  have col1: "userColor m1 = Some (generateUserColor ''T'')"
    using first rooms1 m1 by auto
  obtain d1 where g1: "getRoom (store oneTeacher) ''r1'' = Some d1"
    by (simp add: oneTeacher_eq getRoom_def)
  have f1: "find (\<lambda>r. rid r = ''r1'') (activeRooms oneTeacher) = Some room1"
    using rooms1 by simp
  have fm1: "find (\<lambda>m. telegramId m = ''S'') (members room1) = None"
    using m1 by simp
  have after1: "find (\<lambda>r. rid r = ''r1'')
        (activeRooms (fst (handleJoinRoom logEngine 2 ''c1'' (joinAs ''S'' ''r1'') oneTeacher))) =
      Some (room1\<lparr>members :=
              members room1 @
              [\<lparr>clientId = ''c1'', telegramId = ''S'', username = None, online = True,
                lastCursorPosition = None, lastSelection = None,
                userColor = Some (generateUserColor ''S''), lastActivity = Some 2\<rparr>]\<rparr>)"
    using first [THEN conjunct2, THEN conjunct2, THEN conjunct2, THEN conjunct2, rule_format,
                 where room = d1 and ar = room1]
          g1 f1 fm1
    by (simp add: p)
  show ?thesis
    using rooms m col f after evs jc after1 m1 col1 by (simp add: color_of_S)
qed

text \<open>
  C9. In a state the gateway reaches, let \<open>room\<close> be the first active room with a member
  bound to the disconnecting connection, and \<open>m\<close> the first such member of it. If no other
  member of the room is online the room is removed from the registry; otherwise the room
  stays, with \<open>m\<close> offline and its last selection cleared. Nothing else changes.
\<close>

theorem disconnect_first_bound_room:
  assumes "s = run eng reqs (initial st)"
    and "activeRooms s = pre @ room # post"
    and "\<forall>r\<in>set pre. \<forall>m1\<in>set (members r). clientId m1 \<noteq> client"
    and "members room = mpre @ m # mpost"
    and "\<forall>m1\<in>set mpre. clientId m1 \<noteq> client"
    and "clientId m = client"
  shows "activeRooms (fst (handleDisconnect client s)) =
           (if \<exists>m1\<in>set (mpre @ mpost). online m1
            then pre @ room\<lparr>members := mpre @ m\<lparr>online := False, lastSelection := None\<rparr> # mpost\<rparr> # post
            else pre @ post)"
proof -
  let ?m1 = "m\<lparr>online := False, lastSelection := None\<rparr>"
  let ?room1 = "room\<lparr>members := mpre @ ?m1 # mpost\<rparr>"
  have ok: "registryOk (activeRooms s)"
    unfolding assms(1) by (rule reachable_registryOk)
  have nopre: "\<forall>r\<in>set pre. find (\<lambda>m. clientId m = client) (members r) = None"
    using assms(3) by (auto simp: find_None_iff)
  have fm: "find (\<lambda>m. clientId m = client) (members room) = Some m"
    unfolding assms(4) by (rule find_split) (use assms(5,6) in auto)
  have leave: "leaveRoom client room = ?room1"
    unfolding leaveRoom_def assms(4)
    by (subst modifyFirst_split) (use assms(5,6) in auto)
  have loop: "disconnectLoop client (activeRooms s) = Some (pre @ ?room1 # post, ?m1, ?room1)"
    unfolding assms(2) using disconnectLoop_split [OF nopre fm] leave by simp
  have "distinct (map rid (pre @ room # post))"
    using ok by (simp add: registryOk_def assms(2))
  then have "rid room \<notin> rid ` set pre" by auto
  then have "\<forall>x\<in>set pre. rid x \<noteq> rid room" by (metis image_eqI)
  then have rem: "removeFirst (\<lambda>r. rid r = rid room) (pre @ ?room1 # post) = pre @ post"
    by (intro removeFirst_split) auto
  have on: "(filter online (mpre @ ?m1 # mpost) = []) = (\<not> (\<exists>m1\<in>set (mpre @ mpost). online m1))"
    by (auto simp: filter_empty_conv)
  show ?thesis
    using loop rem on by (simp add: handleDisconnect_def Let_def)
qed

text \<open>
  C9 at the states \<open>teacherAndStudent\<close>, where the student has a selection and the
  teacher stays online, and \<open>oneStudent\<close>, where the student is alone.
\<close>

theorem disconnect_first_bound_room_witness:
  "presence (activeRooms teacherAndStudent) =
     [(''r1'', [(''T'', ''c0'', True), (''S'', ''c1'', True)])] \<and>
   map (\<lambda>r. map lastSelection (members r)) (activeRooms teacherAndStudent) =
     [[None, Some \<lparr>line = Some 3, column = Some 5, selectionStart = None,
                   selectionEnd = None, selectedText = None\<rparr>]] \<and>
   presence (activeRooms (fst (handleDisconnect ''c1'' teacherAndStudent))) =
     [(''r1'', [(''T'', ''c0'', True), (''S'', ''c1'', False)])] \<and>
   map (\<lambda>r. map lastSelection (members r))
     (activeRooms (fst (handleDisconnect ''c1'' teacherAndStudent))) = [[None, None]] \<and>
   presence (activeRooms oneStudent) = [(''r1'', [(''S'', ''c1'', True)])] \<and>
   activeRooms (fst (handleDisconnect ''c1'' oneStudent)) = []"
proof -
  obtain room mt ms where a: "activeRooms teacherAndStudent = [] @ room # []"
    and b: "members room = [mt] @ ms # []"
    and c: "clientId mt = ''c0''" "clientId ms = ''c1''" "online mt" "online ms"
      "telegramId mt = ''T''" "telegramId ms = ''S''" "rid room = ''r1''"
      "lastSelection mt = None"
      "lastSelection ms = Some \<lparr>line = Some 3, column = Some 5, selectionStart = None,
                                selectionEnd = None, selectedText = None\<rparr>"
    by (simp add: teacherAndStudent_eq)
  have first: "activeRooms (fst (handleDisconnect ''c1'' teacherAndStudent)) =
      [room\<lparr>members := [mt, ms\<lparr>online := False, lastSelection := None\<rparr>]\<rparr>]"
    using disconnect_first_bound_room [OF teacherAndStudent_def a _ b _ c(2)] c by simp
  obtain room1 m1 where a1: "activeRooms oneStudent = [] @ room1 # []"
    and b1: "members room1 = [] @ m1 # []"
    and c1: "clientId m1 = ''c1''" "online m1" "telegramId m1 = ''S''" "rid room1 = ''r1''"
    by (simp add: oneStudent_eq)
  have last: "activeRooms (fst (handleDisconnect ''c1'' oneStudent)) = []"
    using disconnect_first_bound_room [OF oneStudent_def a1 _ b1 _ c1(1)] by simp
  show ?thesis
    using a b c first a1 b1 c1 last by (simp add: presence_def)
qed

text \<open>
  Only the first room is handled. At \<open>oneSocketTwoRooms\<close> one connection has joined two
  rooms; after it disconnects, the second room is still in the registry, with its only
  member still marked online.
\<close>

theorem disconnect_second_room_counterexample:
  "presence (activeRooms oneSocketTwoRooms) =
     [(''r1'', [(''S'', ''c1'', True)]), (''r2'', [(''S'', ''c1'', True)])] \<and>
   presence (activeRooms (fst (handleDisconnect ''c1'' oneSocketTwoRooms))) =
     [(''r2'', [(''S'', ''c1'', True)])]"
  by (simp only: oneSocketTwoRooms_eq) code_simp

text \<open>
  C10. A selection payload whose \<open>line\<close> is falsy (absent or 0), that has no complete
  range and no clear flag, changes no member's last selection, whatever its
  \<open>column\<close> is.
\<close>

theorem selection_falsy_line_keeps_last_selection:
  assumes "\<not> truthyNum (line data)"
    and "\<not> (truthyObj (selectionStart data) \<and> truthyObj (selectionEnd data) \<and>
             truthyStr (selectedText data))"
    and "\<not> truthyBool (clearSelection data)"
  shows "lastSelection (applySelection now data member) = lastSelection member \<and>
         map (\<lambda>room. map lastSelection (members room))
             (activeRooms (fst (handleSelection now client data s))) =
         map (\<lambda>room. map lastSelection (members room)) (activeRooms s)"
proof
  have keep: "lastSelection (applySelection now data m) = lastSelection m" for m
    using assms by (auto simp: applySelection_def Let_def)
  show "lastSelection (applySelection now data member) = lastSelection member"
    by (rule keep)
  show "map (\<lambda>room. map lastSelection (members room))
             (activeRooms (fst (handleSelection now client data s))) =
         map (\<lambda>room. map lastSelection (members room)) (activeRooms s)"
  proof (cases "find (\<lambda>room. rid room = roomId_s data) (activeRooms s)")
    case None
    then show ?thesis by (simp add: handleSelection_def)
  next
    case (Some ar)
    let ?ms = "case find (\<lambda>m. telegramId m = telegramId_s data) (members ar) of
                 None \<Rightarrow> members ar
               | Some _ \<Rightarrow> modifyFirst (\<lambda>m. telegramId m = telegramId_s data)
                    (applySelection now data) (members ar)"
    have ms: "map lastSelection ?ms = map lastSelection (members ar)"
      by (cases "find (\<lambda>m. telegramId m = telegramId_s data) (members ar)")
         (simp_all add: modifyFirst_map keep)
    have "map (\<lambda>room. map lastSelection (members room))
            (modifyFirst (\<lambda>room. rid room = roomId_s data) (\<lambda>room. room\<lparr>members := ?ms\<rparr>)
               (activeRooms s)) =
          map (\<lambda>room. map lastSelection (members room)) (activeRooms s)"
      by (rule modifyFirst_map_found [OF Some]) (simp add: ms)
    then show ?thesis using Some
      by (simp add: handleSelection_def Let_def)
  qed
qed

text \<open>
  C10 at the state \<open>selected\<close>: line 0 and column 7 leave the selection of line 3 and
  column 5 in place.
\<close>

theorem selection_falsy_line_keeps_last_selection_witness:
  "truthyNum (line (pointAt ''S'' ''r1'' 0 7)) = False \<and>
   column (pointAt ''S'' ''r1'' 0 7) = Some 7 \<and>
   truthyObj (selectionStart (pointAt ''S'' ''r1'' 0 7)) = False \<and>
   truthyBool (clearSelection (pointAt ''S'' ''r1'' 0 7)) = False \<and>
   lastSelection (applySelection 3 (pointAt ''S'' ''r1'' 0 7) (newMember 1 ''c1'' ''S'' None)) =
     None \<and>
   map (\<lambda>room. map lastSelection (members room)) (activeRooms selected) =
     [[Some \<lparr>line = Some 3, column = Some 5, selectionStart = None, selectionEnd = None,
             selectedText = None\<rparr>]] \<and>
   map (\<lambda>room. map lastSelection (members room))
     (activeRooms (fst (handleSelection 3 ''c1'' (pointAt ''S'' ''r1'' 0 7) selected))) =
     [[Some \<lparr>line = Some 3, column = Some 5, selectionStart = None, selectionEnd = None,
             selectedText = None\<rparr>]]"
proof -
  have h: "\<not> truthyNum (line (pointAt ''S'' ''r1'' 0 7))"
    "\<not> (truthyObj (selectionStart (pointAt ''S'' ''r1'' 0 7)) \<and>
        truthyObj (selectionEnd (pointAt ''S'' ''r1'' 0 7)) \<and>
        truthyStr (selectedText (pointAt ''S'' ''r1'' 0 7)))"
    "\<not> truthyBool (clearSelection (pointAt ''S'' ''r1'' 0 7))"
    by (simp_all add: pointAt_def truthyNum_def truthyObj_def truthyBool_def)
  have before: "map (\<lambda>room. map lastSelection (members room)) (activeRooms selected) =
     [[Some \<lparr>line = Some 3, column = Some 5, selectionStart = None, selectionEnd = None,
             selectedText = None\<rparr>]]"
    by (simp add: selected_eq)
  from selection_falsy_line_keeps_last_selection
         [OF h, of 3 "newMember 1 ''c1'' ''S'' None" "''c1''" selected] h before
  show ?thesis
    by (simp add: pointAt_def newMember_def truthyObj_def truthyNum_def truthyBool_def)
qed

end
